theory Spec2Isabelle
  imports
    Complex_Main
    "HOL-Library.Word"
    "HOL-Library.Sublist"
    "HOL-Library.Char_ord"
    "HOL-Library.List_Lexorder"
    "HOL-Library.Product_Lexorder"
begin

section \<open>Common vocabulary of the four scripts\<close>

text \<open>
  The scripts are linear sequences of calls into pandas, the operating system and a
  subprocess. A call that can raise is modelled by its outcome: \<open>Inl e\<close> (or \<open>Some e\<close>
  where nothing is returned) is the exception, the other branch the value. The outcomes
  of the calls into the outside world (which files exist, what they hold, which writes
  fail) are the fields of an environment record, one per script, so every theorem holds
  for all behaviours of the outside world. What a script does to the outside world is
  the list of events it returns, in program order.

  \<open>Exception\<close> stands for any subclass of Python's \<open>Exception\<close> other than
  \<open>subprocess.CalledProcessError\<close>; the string is \<open>str(e)\<close>. Asynchronous interrupts
  (\<open>KeyboardInterrupt\<close>, \<open>SystemExit\<close>) are not modelled.
\<close>

datatype exn = Exception string | CalledProcessError string string

fun str_exn :: "exn \<Rightarrow> string" where
  "str_exn (Exception m) = m"
| "str_exn (CalledProcessError m err) = m"

fun stderr_exn :: "exn \<Rightarrow> string" where
  "stderr_exn (Exception m) = []"
| "stderr_exn (CalledProcessError m err) = err"

text \<open>
  A parsed \<open>pandas.Timestamp\<close> is the record of the accessor values the scripts read:
  \<open>.dt.date\<close> (as the ISO text that \<open>to_csv\<close> writes for it), \<open>.dt.hour\<close>, \<open>.dt.year\<close>,
  \<open>.dt.month\<close>, \<open>.dt.day\<close> and \<open>.dt.day_name()\<close>.
\<close>

record pd_timestamp =
  dt_date :: string
  dt_hour :: int
  dt_year :: int
  dt_month :: int
  dt_day :: int
  dt_day_name :: string

text \<open>
  \<open>pd.to_datetime(series)\<close>: every element is converted, and the first that fails
  raises. How an element converts may depend on the column it stands in (pandas guesses
  one format from the column and applies it to every element), so the conversion of an
  element, which the outside world gives, takes the column as well.
\<close>

fun convert_each :: "('a \<Rightarrow> exn + 'b) \<Rightarrow> 'a list \<Rightarrow> exn + 'b list" where
  "convert_each conv [] = Inr []"
| "convert_each conv (x # xs) =
     (case conv x of
        Inl e \<Rightarrow> Inl e
      | Inr t \<Rightarrow> (case convert_each conv xs of
                    Inl e \<Rightarrow> Inl e
                  | Inr ts \<Rightarrow> Inr (t # ts)))"

definition to_datetime_col :: "('a list \<Rightarrow> 'a \<Rightarrow> exn + 'b) \<Rightarrow> 'a list \<Rightarrow> exn + 'b list" where
  "to_datetime_col conv xs = convert_each (conv xs) xs"

text \<open>A missing element of a column of strings converts to NaT (\<open>None\<close>), whatever the column.\<close>

definition missing_is_nat ::
  "(string option list \<Rightarrow> string \<Rightarrow> exn + pd_timestamp)
     \<Rightarrow> string option list \<Rightarrow> string option \<Rightarrow> exn + pd_timestamp option" where
  "missing_is_nat conv col x =
     (case x of
        None \<Rightarrow> Inr None
      | Some s \<Rightarrow> (case conv col s of Inl e \<Rightarrow> Inl e | Inr t \<Rightarrow> Inr (Some t)))"

text \<open>
  What a script does, in program order: a line printed, a directory made, a file written
  (with its content, of type \<open>'w\<close>), a subprocess run.
\<close>

datatype 'w event =
  Print string
| Makedirs string
| Write string 'w
| Run string


text \<open>
  A call of a function of a script: how it ended (\<open>Inl e\<close>: the exception \<open>e\<close> left the
  function and reaches the caller; \<open>Inr v\<close>: it returned \<open>v\<close>) and what it did.
\<close>

type_synonym ('a, 'w) call = "(exn + 'a) \<times> 'w event list"

definition ret :: "'a \<Rightarrow> ('a, 'w) call" where
  "ret v = (Inr v, [])"

definition say :: "string \<Rightarrow> (unit, 'w) call" where
  "say msg = (Inr (), [Print msg])"

text \<open>A call into the outside world that returns nothing: it raises, or it happens.\<close>

definition attempt :: "exn option \<Rightarrow> 'w event \<Rightarrow> (unit, 'w) call" where
  "attempt outcome ev = (case outcome of Some e \<Rightarrow> (Inl e, []) | None \<Rightarrow> (Inr (), [ev]))"

text \<open>A call that returns a value and leaves no trace (a read).\<close>

definition reading :: "exn + 'a \<Rightarrow> ('a, 'w) call" where
  "reading outcome = (outcome, [])"

text \<open>Sequencing: an exception in the first call skips the rest.\<close>

definition bind :: "('a, 'w) call \<Rightarrow> ('a \<Rightarrow> ('b, 'w) call) \<Rightarrow> ('b, 'w) call" where
  "bind c f =
     (case c of
        (Inl e, tr) \<Rightarrow> (Inl e, tr)
      | (Inr v, tr) \<Rightarrow> (case f v of (r, tr') \<Rightarrow> (r, tr @ tr')))"

text \<open>\<open>try: body except ...: handler\<close>; a handler that does not catch \<open>e\<close> re-raises it.\<close>

definition try_except :: "('a, 'w) call \<Rightarrow> (exn \<Rightarrow> ('a, 'w) call) \<Rightarrow> ('a, 'w) call" where
  "try_except body handler =
     (case body of
        (Inl e, tr) \<Rightarrow> (case handler e of (r, tr') \<Rightarrow> (r, tr @ tr'))
      | (Inr v, tr) \<Rightarrow> (Inr v, tr))"

section \<open>The processor: process_data.py\<close>

subsection \<open>Raw and processed rows\<close>

text \<open>
  Rows are records whose fields are the columns of the source, prefixed by the table
  (\<open>rw_\<close> raw web log, \<open>wl_\<close> processed web log, \<open>rs_\<close> raw social post, \<open>sp_\<close> processed
  social post, \<open>rn_\<close> raw sensor reading, \<open>sn_\<close> processed sensor reading), since the
  three datasets share column names. A cell that is missing in the input (NaN after
  reading) is \<open>None\<close>: this is modelled for \<open>user_id\<close> and for the columns that the
  scripts convert to dates, group by, count or average; a timestamp that is missing
  converts to NaT, and the date and hour taken from it are missing too. The integer
  columns of the social posts are int64 columns, whose arithmetic wraps around: they are
  64-bit words.
\<close>

record raw_web_log =
  rw_timestamp :: "string option"
  rw_ip_address :: "string option"
  rw_user_id :: "string option"
  rw_method :: string
  rw_endpoint :: "string option"
  rw_status_code :: "int option"
  rw_response_time :: "real option"
  rw_user_agent :: string

record web_log =
  wl_timestamp :: "pd_timestamp option"
  wl_ip_address :: "string option"
  wl_user_id :: string
  wl_method :: string
  wl_endpoint :: "string option"
  wl_status_code :: "int option"
  wl_response_time :: "real option"
  wl_user_agent :: string
  wl_date :: "string option"
  wl_hour :: "int option"
  wl_is_error :: bool

record raw_social_post =
  rs_post_id :: "string option"
  rs_user_handle :: string
  rs_timestamp :: "string option"
  rs_content :: string
  rs_likes :: "64 word"
  rs_shares :: "64 word"
  rs_comments :: "64 word"
  rs_sentiment :: string
  rs_category :: "string option"
  rs_platform :: "string option"

record social_post =
  sp_post_id :: "string option"
  sp_user_handle :: string
  sp_timestamp :: "pd_timestamp option"
  sp_content :: string
  sp_likes :: "64 word"
  sp_shares :: "64 word"
  sp_comments :: "64 word"
  sp_sentiment :: string
  sp_category :: "string option"
  sp_platform :: "string option"
  sp_date :: "string option"
  sp_hour :: "int option"
  sp_engagement_score :: "64 word"
  sp_sentiment_score :: "int option"

record raw_sensor_reading =
  rn_timestamp :: "string option"
  rn_sensor_id :: "string option"
  rn_sensor_type :: "string option"
  rn_location :: "string option"
  rn_value :: "real option"
  rn_battery_level :: int
  rn_status :: string

record sensor_reading =
  sn_timestamp :: "pd_timestamp option"
  sn_sensor_id :: "string option"
  sn_sensor_type :: "string option"
  sn_location :: "string option"
  sn_value :: "real option"
  sn_battery_level :: int
  sn_status :: string
  sn_date :: "string option"
  sn_hour :: "int option"
  sn_is_active :: bool
  sn_battery_category :: "string option"

subsection \<open>Column transformations\<close>

text \<open>\<open>series.fillna(v)\<close> on one cell.\<close>

definition fillna :: "'a \<Rightarrow> 'a option \<Rightarrow> 'a" where
  "fillna v c = (case c of None \<Rightarrow> v | Some x \<Rightarrow> x)"

text \<open>
  \<open>pd.cut(x, bins, labels)\<close> on one value, with the defaults \<open>right=True\<close> and
  \<open>include_lowest=False\<close>: the intervals are open on the left and closed on the right,
  and a value in none of them is NaN.
\<close>

fun pd_cut :: "int list \<Rightarrow> string list \<Rightarrow> int \<Rightarrow> string option" where
  "pd_cut (lo # hi # bins) (l # labels) x =
     (if lo < x \<and> x \<le> hi then Some l else pd_cut (hi # bins) labels x)"
| "pd_cut bins labels x = None"

text \<open>\<open>series.map(dict)\<close> on one cell: a key that the dict lacks gives NaN.\<close>

definition sentiment_map :: "(string \<times> int) list" where
  "sentiment_map = [(''positive'', 1), (''neutral'', 0), (''negative'', -1)]"

text \<open>\<open>series >= n\<close> on one cell: a comparison with NaN is false.\<close>

definition ge_cell :: "int option \<Rightarrow> int \<Rightarrow> bool" where
  "ge_cell c n = (case c of None \<Rightarrow> False | Some v \<Rightarrow> v \<ge> n)"

text \<open>
  The rows that \<open>process_web_logs\<close> builds, given the converted timestamp of the row
  (\<open>None\<close> is NaT, whose \<open>.dt.date\<close> and \<open>.dt.hour\<close> are missing).
\<close>

definition web_log_row :: "raw_web_log \<Rightarrow> pd_timestamp option \<Rightarrow> web_log" where
  "web_log_row r ts =
     \<lparr> wl_timestamp = ts,
       wl_ip_address = rw_ip_address r,
       wl_user_id = fillna ''anonymous'' (rw_user_id r),
       wl_method = rw_method r,
       wl_endpoint = rw_endpoint r,
       wl_status_code = rw_status_code r,
       wl_response_time = rw_response_time r,
       wl_user_agent = rw_user_agent r,
       wl_date = map_option dt_date ts,
       wl_hour = map_option dt_hour ts,
       wl_is_error = ge_cell (rw_status_code r) 400 \<rparr>"

definition social_post_row :: "raw_social_post \<Rightarrow> pd_timestamp option \<Rightarrow> social_post" where
  "social_post_row r ts =
     \<lparr> sp_post_id = rs_post_id r,
       sp_user_handle = rs_user_handle r,
       sp_timestamp = ts,
       sp_content = rs_content r,
       sp_likes = rs_likes r,
       sp_shares = rs_shares r,
       sp_comments = rs_comments r,
       sp_sentiment = rs_sentiment r,
       sp_category = rs_category r,
       sp_platform = rs_platform r,
       sp_date = map_option dt_date ts,
       sp_hour = map_option dt_hour ts,
       sp_engagement_score = rs_likes r + (rs_shares r * 2) + (rs_comments r * 3),
       sp_sentiment_score = map_of sentiment_map (rs_sentiment r) \<rparr>"

definition sensor_reading_row ::
  "raw_sensor_reading \<Rightarrow> pd_timestamp option \<Rightarrow> sensor_reading" where
  "sensor_reading_row r ts =
     \<lparr> sn_timestamp = ts,
       sn_sensor_id = rn_sensor_id r,
       sn_sensor_type = rn_sensor_type r,
       sn_location = rn_location r,
       sn_value = rn_value r,
       sn_battery_level = rn_battery_level r,
       sn_status = rn_status r,
       sn_date = map_option dt_date ts,
       sn_hour = map_option dt_hour ts,
       sn_is_active = (rn_status r = ''active''),
       sn_battery_category =
         pd_cut [0, 20, 50, 80, 100] [''critical'', ''low'', ''medium'', ''high'']
           (rn_battery_level r) \<rparr>"

text \<open>
  The range of \<open>battery_level\<close> in the generator (collect_data.py):
  \<open>random.randint(10, 100)\<close>, both ends included.
\<close>

definition battery_level_range :: "int \<Rightarrow> bool" where
  "battery_level_range b \<longleftrightarrow> 10 \<le> b \<and> b \<le> 100"

subsection \<open>The outside world of process_data.py\<close>

text \<open>
  \<open>read_web_logs\<close> is the outcome of \<open>pd.read_csv(input_file)\<close> with the columns the block
  reads (a file that is missing, unreadable or lacks a column raises inside the \<open>try\<close>);
  \<open>read_social\<close> that of \<open>open\<close>, \<open>json.load\<close> and \<open>pd.DataFrame\<close>; \<open>read_sensor\<close> that of
  the sensor file. \<open>makedirs\<close> is \<open>os.makedirs(path, exist_ok=True)\<close>, \<open>to_csv\<close> is
  \<open>df.to_csv(path, index=False)\<close> and \<open>run\<close> is
  \<open>subprocess.run(cmd, shell=True, check=True, ...)\<close>: \<open>None\<close> when the call returns,
  \<open>Some e\<close> when it raises \<open>e\<close>.
\<close>

record env =
  makedirs :: "string \<Rightarrow> exn option"
  read_web_logs :: "exn + raw_web_log list"
  read_social :: "exn + raw_social_post list"
  read_sensor :: "exn + raw_sensor_reading list"
  to_datetime :: "string option list \<Rightarrow> string \<Rightarrow> exn + pd_timestamp"
  to_csv :: "string \<Rightarrow> exn option"
  run :: "string \<Rightarrow> exn option"

datatype written =
  WebLogs "web_log list"
| SocialData "social_post list"
| SensorData "sensor_reading list"

subsection \<open>The three processing functions\<close>

text \<open>
  The dataframe that the \<open>try\<close> block of each function builds before it saves it. A
  JSON list without posts makes a frame without columns, where \<open>df['timestamp']\<close> raises
  \<open>KeyError\<close>; a CSV file with a header and no rows makes a frame with its columns.
\<close>

definition web_logs_frame :: "env \<Rightarrow> exn + web_log list" where
  "web_logs_frame env =
     (case read_web_logs env of
        Inl e \<Rightarrow> Inl e
      | Inr df \<Rightarrow>
          (case to_datetime_col (missing_is_nat (to_datetime env)) (map rw_timestamp df) of
             Inl e \<Rightarrow> Inl e
           | Inr tss \<Rightarrow> Inr (map2 web_log_row df tss)))"

definition social_data_frame :: "env \<Rightarrow> exn + social_post list" where
  "social_data_frame env =
     (case read_social env of
        Inl e \<Rightarrow> Inl e
      | Inr [] \<Rightarrow> Inl (Exception ([CHR 0x27] @ ''timestamp'' @ [CHR 0x27]))
      | Inr df \<Rightarrow>
          (case to_datetime_col (missing_is_nat (to_datetime env)) (map rs_timestamp df) of
             Inl e \<Rightarrow> Inl e
           | Inr tss \<Rightarrow> Inr (map2 social_post_row df tss)))"

definition sensor_data_frame :: "env \<Rightarrow> exn + sensor_reading list" where
  "sensor_data_frame env =
     (case read_sensor env of
        Inl e \<Rightarrow> Inl e
      | Inr df \<Rightarrow>
          (case to_datetime_col (missing_is_nat (to_datetime env)) (map rn_timestamp df) of
             Inl e \<Rightarrow> Inl e
           | Inr tss \<Rightarrow> Inr (map2 sensor_reading_row df tss)))"

text \<open>
  \<open>process_web_logs\<close> makes the output directory before it enters its \<open>try\<close>; the two
  other functions have no statement that can raise outside theirs.
\<close>

definition process_web_logs :: "env \<Rightarrow> (bool, written) call" where
  "process_web_logs env =
     (let input_file = ''data/raw/logs/web_access_logs.csv'';
          output_file = ''data/processed/web_logs_processed.csv''
      in bind (attempt (makedirs env ''data/processed'') (Makedirs ''data/processed''))
           (\<lambda>_. bind (say (''Processing web logs from '' @ input_file @ ''...''))
           (\<lambda>_. try_except
                   (bind (reading (web_logs_frame env))
                      (\<lambda>df. bind (attempt (to_csv env output_file)
                                     (Write output_file (WebLogs df)))
                      (\<lambda>_. bind (say (''Processed web logs saved to '' @ output_file))
                      (\<lambda>_. ret True))))
                   (\<lambda>e. bind (say (''Error processing web logs: '' @ str_exn e))
                      (\<lambda>_. ret False)))))"

definition process_social_data :: "env \<Rightarrow> (bool, written) call" where
  "process_social_data env =
     (let input_file = ''data/raw/social/social_data.json'';
          output_file = ''data/processed/social_data_processed.csv''
      in bind (say (''Processing social data from '' @ input_file @ ''...''))
           (\<lambda>_. try_except
                   (bind (reading (social_data_frame env))
                      (\<lambda>df. bind (attempt (to_csv env output_file)
                                     (Write output_file (SocialData df)))
                      (\<lambda>_. bind (say (''Processed social data saved to '' @ output_file))
                      (\<lambda>_. ret True))))
                   (\<lambda>e. bind (say (''Error processing social data: '' @ str_exn e))
                      (\<lambda>_. ret False))))"

definition process_sensor_data :: "env \<Rightarrow> (bool, written) call" where
  "process_sensor_data env =
     (let input_file = ''data/raw/logs/sensor_data.csv'';
          output_file = ''data/processed/sensor_data_processed.csv''
      in bind (say (''Processing sensor data from '' @ input_file @ ''...''))
           (\<lambda>_. try_except
                   (bind (reading (sensor_data_frame env))
                      (\<lambda>df. bind (attempt (to_csv env output_file)
                                     (Write output_file (SensorData df)))
                      (\<lambda>_. bind (say (''Processed sensor data saved to '' @ output_file))
                      (\<lambda>_. ret True))))
                   (\<lambda>e. bind (say (''Error processing sensor data: '' @ str_exn e))
                      (\<lambda>_. ret False))))"

subsection \<open>The upload and the script body\<close>

text \<open>\<open>os.path.basename\<close>: what follows the last slash.\<close>

definition basename :: "string \<Rightarrow> string" where
  "basename p = rev (takeWhile (\<lambda>c. c \<noteq> CHR ''/'') (rev p))"

definition hdfs_dir :: string where
  "hdfs_dir = ''/user/hive/warehouse/raw_data''"

text \<open>
  \<open>subprocess.run(cmd, shell=True, check=True, ...)\<close>: the command runs; a non-zero exit
  status raises.
\<close>

definition subprocess_run :: "env \<Rightarrow> string \<Rightarrow> (unit, written) call" where
  "subprocess_run env cmd =
     (case run env cmd of
        Some e \<Rightarrow> (Inl e, [Run cmd])
      | None \<Rightarrow> (Inr (), [Run cmd]))"

text \<open>The body of the \<open>for file in files\<close> loop: three commands, then a line printed.\<close>

definition upload_file :: "env \<Rightarrow> string \<Rightarrow> (unit, written) call" where
  "upload_file env file =
     (let file_name = basename file;
          hdfs_path = hdfs_dir @ ''/'' @ file_name
      in bind (subprocess_run env
                 (''docker exec -it namenode hdfs dfs -mkdir -p '' @ hdfs_dir))
           (\<lambda>_. bind (subprocess_run env
                        (''docker cp '' @ file @ '' namenode:/tmp/'' @ file_name))
           (\<lambda>_. bind (subprocess_run env
                        (''docker exec -it namenode hdfs dfs -put -f /tmp/'' @ file_name
                         @ '' '' @ hdfs_path))
           (\<lambda>_. say (''Uploaded '' @ file @ '' to HDFS at '' @ hdfs_path)))))"

fun upload_files :: "env \<Rightarrow> string list \<Rightarrow> (unit, written) call" where
  "upload_files env [] = ret ()"
| "upload_files env (file # files) =
     bind (upload_file env file) (\<lambda>_. upload_files env files)"

definition uploading_message :: string where
  "uploading_message = ''Uploading processed data to HDFS directory: '' @ hdfs_dir"

text \<open>
  \<open>upload_to_hdfs\<close> catches \<open>subprocess.CalledProcessError\<close> only; any other exception
  leaves it.
\<close>

definition upload_to_hdfs :: "env \<Rightarrow> (bool, written) call" where
  "upload_to_hdfs env =
     (let files = [''data/processed/web_logs_processed.csv'',
                   ''data/processed/social_data_processed.csv'',
                   ''data/processed/sensor_data_processed.csv'']
      in bind (say uploading_message)
           (\<lambda>_. try_except
                   (bind (upload_files env files)
                      (\<lambda>_. bind (say ''All files uploaded to HDFS successfully'')
                      (\<lambda>_. ret True)))
                   (\<lambda>e. case e of
                           CalledProcessError m err \<Rightarrow>
                             bind (say (''Error uploading to HDFS: '' @ m))
                               (\<lambda>_. bind (say (''Command output: '' @ err))
                               (\<lambda>_. ret False))
                         | Exception m \<Rightarrow> (Inl e, []))))"

definition skipping_message :: string where
  "skipping_message = ''Skipping HDFS upload due to processing errors''"

text \<open>
  The \<open>__main__\<close> block. An exception that leaves one of the calls ends the script there
  (\<open>Inl e\<close>); otherwise the script runs to its last line (\<open>Inr ()\<close>).
\<close>

definition main :: "env \<Rightarrow> (unit, written) call" where
  "main env =
     bind (say ''Starting data processing...'')
       (\<lambda>_. bind (process_web_logs env)
       (\<lambda>web_logs_ok. bind (process_social_data env)
       (\<lambda>social_data_ok. bind (process_sensor_data env)
       (\<lambda>sensor_data_ok.
          bind (if web_logs_ok \<and> social_data_ok \<and> sensor_data_ok
                then bind (upload_to_hdfs env) (\<lambda>_. ret ())
                else say skipping_message)
            (\<lambda>_. say ''Data processing completed.'')))))"

text \<open>
  The events that only \<open>upload_to_hdfs\<close> produces: its first line printed, and every
  subprocess of the script.
\<close>

fun upload_event :: "written event \<Rightarrow> bool" where
  "upload_event (Run cmd) = True"
| "upload_event (Print msg) = (msg = uploading_message)"
| "upload_event ev = False"

definition upload_invoked :: "written event list \<Rightarrow> bool" where
  "upload_invoked tr = list_ex upload_event tr"

section \<open>The direct aggregator: direct_processing.py\<close>

subsection \<open>Dataframes as they are written and read back\<close>

text \<open>
  A cell of a frame or of a delimited file. The text that \<open>to_csv\<close> writes for a number
  and the type that \<open>read_csv\<close> infers from it are not modelled: a file is the list of
  its records, each the list of its cells. Floating-point columns are real numbers with
  NaN beside them (\<open>None\<close> in the typed rows below).
\<close>

datatype cell =
  NaN
| Str string
| Integer int
| Float real
| Bool bool
| Timestamp pd_timestamp

text \<open>A column label: a name, or a position when \<open>read_csv\<close> is given no names.\<close>

datatype label = Name string | Pos nat

record dataframe =
  columns :: "label list"
  rows :: "cell list list"

definition float_cell :: "real option \<Rightarrow> cell" where
  "float_cell x = (case x of None \<Rightarrow> NaN | Some v \<Rightarrow> Float v)"

definition int64_cell :: "64 word \<Rightarrow> cell" where
  "int64_cell w = Integer (sint w)"

subsection \<open>Grouping and the aggregation functions\<close>

text \<open>
  \<open>df.groupby(keys)\<close> with the defaults (\<open>sort=True\<close>, \<open>dropna=True\<close>): a row in which a
  key column is missing belongs to no group (its key is \<open>None\<close>); there is one group per
  distinct key of the other rows, the groups in ascending order of the key, the rows of
  a group in their order in the frame.
\<close>

definition groupby :: "('r \<Rightarrow> 'k::linorder option) \<Rightarrow> 'r list \<Rightarrow> ('k \<times> 'r list) list" where
  "groupby key df =
     map (\<lambda>k. (k, filter (\<lambda>r. key r = Some k) df)) (sort (remdups (List.map_filter key df)))"

text \<open>The key of a row under two and under three key columns.\<close>

definition key2 :: "'a option \<Rightarrow> 'b option \<Rightarrow> ('a \<times> 'b) option" where
  "key2 a b = (case a of None \<Rightarrow> None | Some x \<Rightarrow> (case b of None \<Rightarrow> None | Some y \<Rightarrow> Some (x, y)))"

definition key3 :: "'a option \<Rightarrow> 'b option \<Rightarrow> 'c option \<Rightarrow> ('a \<times> 'b \<times> 'c) option" where
  "key3 a b c = (case a of None \<Rightarrow> None | Some x \<Rightarrow> map_option (Pair x) (key2 b c))"

text \<open>
  \<open>'count'\<close> (the cells that are not missing), \<open>'sum'\<close> of a boolean column,
  \<open>len(x.unique())\<close> (where a missing cell is one more value).
\<close>

definition agg_count :: "'a option list \<Rightarrow> int" where
  "agg_count xs = int (length (filter (\<lambda>x. x \<noteq> None) xs))"

definition agg_sum_bool :: "bool list \<Rightarrow> int" where
  "agg_sum_bool bs = int (length (filter (\<lambda>b. b) bs))"

definition agg_nunique :: "'a list \<Rightarrow> int" where
  "agg_nunique xs = int (length (remdups xs))"

text \<open>\<open>'mean'\<close>, \<open>'min'\<close>, \<open>'max'\<close>: missing cells are skipped; NaN when no value is left.\<close>

definition agg_mean :: "real list \<Rightarrow> real option" where
  "agg_mean xs = (if xs = [] then None else Some (sum_list xs / real (length xs)))"

definition agg_mean_skipna :: "real option list \<Rightarrow> real option" where
  "agg_mean_skipna xs = agg_mean (List.map_filter (\<lambda>x. x) xs)"

fun agg_min :: "real list \<Rightarrow> real option" where
  "agg_min [] = None"
| "agg_min (x # xs) = Some (fold min xs x)"

fun agg_max :: "real list \<Rightarrow> real option" where
  "agg_max [] = None"
| "agg_max (x # xs) = Some (fold max xs x)"

definition agg_min_skipna :: "real option list \<Rightarrow> real option" where
  "agg_min_skipna xs = agg_min (List.map_filter (\<lambda>x. x) xs)"

definition agg_max_skipna :: "real option list \<Rightarrow> real option" where
  "agg_max_skipna xs = agg_max (List.map_filter (\<lambda>x. x) xs)"

definition int64_real :: "64 word \<Rightarrow> real" where
  "int64_real w = real_of_int (sint w)"

subsection \<open>The aggregates\<close>

text \<open>
  One record per aggregate, its fields the names that the script assigns to
  \<open>.columns\<close>, prefixed by the table: \<open>wtd_\<close> web_traffic_daily, \<open>wth_\<close>
  web_traffic_hourly, \<open>sed_\<close> social_engagement_daily, \<open>srd_\<close> sensor_readings_daily,
  \<open>wd_\<close> web_daily, \<open>sd_\<close> social_daily, \<open>cd_\<close> correlation_data.
\<close>

record web_traffic_daily_row =
  wtd_date :: string
  wtd_endpoint :: string
  wtd_total_requests :: int
  wtd_error_count :: int
  wtd_avg_response_time :: "real option"
  wtd_unique_visitors :: int

record web_traffic_hourly_row =
  wth_date :: string
  wth_hour :: int
  wth_total_requests :: int
  wth_error_count :: int
  wth_avg_response_time :: "real option"

record social_engagement_daily_row =
  sed_date :: string
  sed_platform :: string
  sed_category :: string
  sed_post_count :: int
  sed_total_likes :: "64 word"
  sed_total_shares :: "64 word"
  sed_total_comments :: "64 word"
  sed_avg_engagement :: "real option"
  sed_avg_sentiment :: "real option"

record sensor_readings_daily_row =
  srd_date :: string
  srd_sensor_type :: string
  srd_location :: string
  srd_reading_count :: int
  srd_avg_value :: "real option"
  srd_min_value :: "real option"
  srd_max_value :: "real option"
  srd_active_readings :: int
  srd_error_readings :: int

record web_daily_row =
  wd_date :: string
  wd_total_requests :: int
  wd_error_count :: int
  wd_avg_response_time :: "real option"

record social_daily_row =
  sd_date :: string
  sd_post_count :: int
  sd_total_likes :: "64 word"
  sd_total_shares :: "64 word"
  sd_total_comments :: "64 word"
  sd_avg_engagement :: "real option"
  sd_avg_sentiment :: "real option"

record correlation_row =
  cd_date :: string
  cd_total_requests :: int
  cd_error_count :: int
  cd_avg_response_time :: "real option"
  cd_post_count :: int
  cd_total_likes :: "64 word"
  cd_total_shares :: "64 word"
  cd_total_comments :: "64 word"
  cd_avg_engagement :: "real option"
  cd_avg_sentiment :: "real option"

definition web_traffic_daily :: "web_log list \<Rightarrow> web_traffic_daily_row list" where
  "web_traffic_daily web_logs =
     map (\<lambda>((date, endpoint), g).
            \<lparr> wtd_date = date,
              wtd_endpoint = endpoint,
              wtd_total_requests = agg_count (map wl_status_code g),
              wtd_error_count = agg_sum_bool (map wl_is_error g),
              wtd_avg_response_time = agg_mean_skipna (map wl_response_time g),
              wtd_unique_visitors = agg_nunique (map wl_ip_address g) \<rparr>)
       (groupby (\<lambda>r. key2 (wl_date r) (wl_endpoint r)) web_logs)"

definition web_traffic_hourly :: "web_log list \<Rightarrow> web_traffic_hourly_row list" where
  "web_traffic_hourly web_logs =
     map (\<lambda>((date, hour), g).
            \<lparr> wth_date = date,
              wth_hour = hour,
              wth_total_requests = agg_count (map wl_status_code g),
              wth_error_count = agg_sum_bool (map wl_is_error g),
              wth_avg_response_time = agg_mean_skipna (map wl_response_time g) \<rparr>)
       (groupby (\<lambda>r. key2 (wl_date r) (wl_hour r)) web_logs)"

definition social_engagement_daily ::
  "social_post list \<Rightarrow> social_engagement_daily_row list" where
  "social_engagement_daily social_data =
     map (\<lambda>((date, platform, category), g).
            \<lparr> sed_date = date,
              sed_platform = platform,
              sed_category = category,
              sed_post_count = agg_count (map sp_post_id g),
              sed_total_likes = sum_list (map sp_likes g),
              sed_total_shares = sum_list (map sp_shares g),
              sed_total_comments = sum_list (map sp_comments g),
              sed_avg_engagement = agg_mean (map (int64_real \<circ> sp_engagement_score) g),
              sed_avg_sentiment =
                agg_mean_skipna (map (map_option real_of_int \<circ> sp_sentiment_score) g) \<rparr>)
       (groupby (\<lambda>r. key3 (sp_date r) (sp_platform r) (sp_category r)) social_data)"

definition sensor_readings_daily ::
  "sensor_reading list \<Rightarrow> sensor_readings_daily_row list" where
  "sensor_readings_daily sensor_data =
     map (\<lambda>((date, sensor_type, location), g).
            (let reading_count = agg_count (map sn_sensor_id g);
                 active_readings = agg_sum_bool (map sn_is_active g)
             in \<lparr> srd_date = date,
                  srd_sensor_type = sensor_type,
                  srd_location = location,
                  srd_reading_count = reading_count,
                  srd_avg_value = agg_mean_skipna (map sn_value g),
                  srd_min_value = agg_min_skipna (map sn_value g),
                  srd_max_value = agg_max_skipna (map sn_value g),
                  srd_active_readings = active_readings,
                  srd_error_readings = reading_count - active_readings \<rparr>))
       (groupby (\<lambda>r. key3 (sn_date r) (sn_sensor_type r) (sn_location r)) sensor_data)"

definition web_daily :: "web_log list \<Rightarrow> web_daily_row list" where
  "web_daily web_logs =
     map (\<lambda>(date, g).
            \<lparr> wd_date = date,
              wd_total_requests = agg_count (map wl_status_code g),
              wd_error_count = agg_sum_bool (map wl_is_error g),
              wd_avg_response_time = agg_mean_skipna (map wl_response_time g) \<rparr>)
       (groupby wl_date web_logs)"

definition social_daily :: "social_post list \<Rightarrow> social_daily_row list" where
  "social_daily social_data =
     map (\<lambda>(date, g).
            \<lparr> sd_date = date,
              sd_post_count = agg_count (map sp_post_id g),
              sd_total_likes = sum_list (map sp_likes g),
              sd_total_shares = sum_list (map sp_shares g),
              sd_total_comments = sum_list (map sp_comments g),
              sd_avg_engagement = agg_mean (map (int64_real \<circ> sp_engagement_score) g),
              sd_avg_sentiment =
                agg_mean_skipna (map (map_option real_of_int \<circ> sp_sentiment_score) g) \<rparr>)
       (groupby sp_date social_data)"

subsection \<open>The correlation table\<close>

definition correlation_of :: "web_daily_row \<Rightarrow> social_daily_row \<Rightarrow> correlation_row" where
  "correlation_of w s =
     \<lparr> cd_date = wd_date w,
       cd_total_requests = wd_total_requests w,
       cd_error_count = wd_error_count w,
       cd_avg_response_time = wd_avg_response_time w,
       cd_post_count = sd_post_count s,
       cd_total_likes = sd_total_likes s,
       cd_total_shares = sd_total_shares s,
       cd_total_comments = sd_total_comments s,
       cd_avg_engagement = sd_avg_engagement s,
       cd_avg_sentiment = sd_avg_sentiment s \<rparr>"

text \<open>
  \<open>pd.merge(left, right, on='date')\<close> when it returns: the inner join, every pair of a
  left and a right row with the same date, in the order of the left rows.
\<close>

definition inner_join :: "web_daily_row list \<Rightarrow> social_daily_row list \<Rightarrow> correlation_row list"
  where
  "inner_join left right =
     concat (map (\<lambda>w. map (correlation_of w) (filter (\<lambda>s. sd_date s = wd_date w) right)) left)"

text \<open>The frame built in the \<open>except\<close> branch: one row per row of \<open>web_daily\<close>.\<close>

definition dummy_correlation :: "web_daily_row list \<Rightarrow> correlation_row list" where
  "dummy_correlation web_daily_df =
     map (\<lambda>(((((((((date, total_requests), error_count), avg_response_time), post_count),
              total_likes), total_shares), total_comments), avg_engagement), avg_sentiment).
            \<lparr> cd_date = date,
              cd_total_requests = total_requests,
              cd_error_count = error_count,
              cd_avg_response_time = avg_response_time,
              cd_post_count = post_count,
              cd_total_likes = total_likes,
              cd_total_shares = total_shares,
              cd_total_comments = total_comments,
              cd_avg_engagement = avg_engagement,
              cd_avg_sentiment = avg_sentiment \<rparr>)
       (zip (zip (zip (zip (zip (zip (zip (zip (zip
          (map wd_date web_daily_df)
          (map wd_total_requests web_daily_df))
          (map wd_error_count web_daily_df))
          (map wd_avg_response_time web_daily_df))
          (replicate (length web_daily_df) 100))
          (replicate (length web_daily_df) 500))
          (replicate (length web_daily_df) 200))
          (replicate (length web_daily_df) 300))
          (replicate (length web_daily_df) (Some 50)))
          (replicate (length web_daily_df) (Some 0.5)))"

text \<open>
  The \<open>try\<close> around the merge. Whether \<open>pd.merge\<close> raises is decided by the outside
  world (\<open>merge_raises\<close>): the typed tables give it no reason to.
\<close>

definition correlation_data ::
  "exn option \<Rightarrow> web_daily_row list \<Rightarrow> social_daily_row list
     \<Rightarrow> (correlation_row list, 'w) call" where
  "correlation_data merge_raises web_daily_df social_daily_df =
     try_except
       (reading (case merge_raises of
                   Some e \<Rightarrow> Inl e
                 | None \<Rightarrow> Inr (inner_join web_daily_df social_daily_df)))
       (\<lambda>e. bind (say (''Error merging data: '' @ str_exn e))
          (\<lambda>_. ret (dummy_correlation web_daily_df)))"

subsection \<open>The frames that are saved\<close>

text \<open>
  Each aggregate as the frame that is saved: the names assigned to \<open>.columns\<close> (for the
  sensor readings, with the \<open>error_readings\<close> column added after them) and one list of
  cells per row.
\<close>

definition web_traffic_daily_frame :: "web_traffic_daily_row list \<Rightarrow> dataframe" where
  "web_traffic_daily_frame t =
     \<lparr> columns = map Name [''date'', ''endpoint'', ''total_requests'', ''error_count'',
                             ''avg_response_time'', ''unique_visitors''],
       rows = map (\<lambda>r. [Str (wtd_date r), Str (wtd_endpoint r),
                         Integer (wtd_total_requests r), Integer (wtd_error_count r),
                         float_cell (wtd_avg_response_time r),
                         Integer (wtd_unique_visitors r)]) t \<rparr>"

definition web_traffic_hourly_frame :: "web_traffic_hourly_row list \<Rightarrow> dataframe" where
  "web_traffic_hourly_frame t =
     \<lparr> columns = map Name [''date'', ''hour'', ''total_requests'', ''error_count'',
                             ''avg_response_time''],
       rows = map (\<lambda>r. [Str (wth_date r), Integer (wth_hour r),
                         Integer (wth_total_requests r), Integer (wth_error_count r),
                         float_cell (wth_avg_response_time r)]) t \<rparr>"

definition social_engagement_daily_frame :: "social_engagement_daily_row list \<Rightarrow> dataframe"
  where
  "social_engagement_daily_frame t =
     \<lparr> columns = map Name [''date'', ''platform'', ''category'', ''post_count'',
                             ''total_likes'', ''total_shares'', ''total_comments'',
                             ''avg_engagement'', ''avg_sentiment''],
       rows = map (\<lambda>r. [Str (sed_date r), Str (sed_platform r), Str (sed_category r),
                         Integer (sed_post_count r), int64_cell (sed_total_likes r),
                         int64_cell (sed_total_shares r), int64_cell (sed_total_comments r),
                         float_cell (sed_avg_engagement r),
                         float_cell (sed_avg_sentiment r)]) t \<rparr>"

definition sensor_readings_daily_frame :: "sensor_readings_daily_row list \<Rightarrow> dataframe" where
  "sensor_readings_daily_frame t =
     \<lparr> columns = map Name ([''date'', ''sensor_type'', ''location'', ''reading_count'',
                              ''avg_value'', ''min_value'', ''max_value'',
                              ''active_readings''] @ [''error_readings'']),
       rows = map (\<lambda>r. [Str (srd_date r), Str (srd_sensor_type r), Str (srd_location r),
                         Integer (srd_reading_count r), float_cell (srd_avg_value r),
                         float_cell (srd_min_value r), float_cell (srd_max_value r),
                         Integer (srd_active_readings r),
                         Integer (srd_error_readings r)]) t \<rparr>"

definition correlation_frame :: "correlation_row list \<Rightarrow> dataframe" where
  "correlation_frame t =
     \<lparr> columns = map Name [''date'', ''total_requests'', ''error_count'',
                             ''avg_response_time'', ''post_count'', ''total_likes'',
                             ''total_shares'', ''total_comments'', ''avg_engagement'',
                             ''avg_sentiment''],
       rows = map (\<lambda>r. [Str (cd_date r), Integer (cd_total_requests r),
                         Integer (cd_error_count r), float_cell (cd_avg_response_time r),
                         Integer (cd_post_count r), int64_cell (cd_total_likes r),
                         int64_cell (cd_total_shares r), int64_cell (cd_total_comments r),
                         float_cell (cd_avg_engagement r),
                         float_cell (cd_avg_sentiment r)]) t \<rparr>"

text \<open>\<open>df.to_csv(path, index=False, header=False)\<close>: the records of the file.\<close>

definition to_csv_headerless :: "dataframe \<Rightarrow> cell list list" where
  "to_csv_headerless df = rows df"

subsection \<open>The script\<close>

text \<open>
  The outside world of direct_processing.py: the three processed tables as
  \<open>pd.read_csv\<close> returns them (or the exception it raises), whether \<open>pd.merge\<close> raises,
  and the outcomes of \<open>os.makedirs\<close> and of \<open>to_csv\<close>. The grouping and aggregation
  calls are taken to return on the typed tables.
\<close>

record dp_env =
  dp_makedirs :: "string \<Rightarrow> exn option"
  read_web_logs_processed :: "exn + web_log list"
  read_social_data_processed :: "exn + social_post list"
  read_sensor_data_processed :: "exn + sensor_reading list"
  merge_raises :: "exn option"
  dp_to_csv :: "string \<Rightarrow> exn option"

text \<open>Python's \<open>repr\<close> of a list of column names, as \<open>print\<close> shows it.\<close>

fun repr_items :: "string list \<Rightarrow> string" where
  "repr_items [] = []"
| "repr_items [c] = [CHR 0x27] @ c @ [CHR 0x27]"
| "repr_items (c # cs) = [CHR 0x27] @ c @ [CHR 0x27] @ '', '' @ repr_items cs"

definition repr_list :: "string list \<Rightarrow> string" where
  "repr_list cs = ''['' @ repr_items cs @ '']''"

definition web_logs_columns :: "string list" where
  "web_logs_columns =
     [''timestamp'', ''ip_address'', ''user_id'', ''method'', ''endpoint'', ''status_code'',
      ''response_time'', ''user_agent'', ''date'', ''hour'', ''is_error'']"

definition social_data_columns :: "string list" where
  "social_data_columns =
     [''post_id'', ''user_handle'', ''timestamp'', ''content'', ''likes'', ''shares'',
      ''comments'', ''sentiment'', ''category'', ''platform'', ''date'', ''hour'',
      ''engagement_score'', ''sentiment_score'']"

definition sensor_data_columns :: "string list" where
  "sensor_data_columns =
     [''timestamp'', ''sensor_id'', ''sensor_type'', ''location'', ''value'',
      ''battery_level'', ''status'', ''date'', ''hour'', ''is_active'',
      ''battery_category'']"

text \<open>The first \<open>try\<close>: the three tables, or \<open>None\<close> after \<open>except Exception: ...; return\<close>.\<close>

definition load_processed ::
  "dp_env \<Rightarrow> ((web_log list \<times> social_post list \<times> sensor_reading list) option,
              cell list list) call" where
  "load_processed env =
     try_except
       (bind (reading (read_web_logs_processed env))
          (\<lambda>web_logs. bind (reading (read_social_data_processed env))
          (\<lambda>social_data. bind (reading (read_sensor_data_processed env))
          (\<lambda>sensor_data. bind (say ''Data loaded successfully!'')
          (\<lambda>_. bind (say (''Web logs columns: '' @ repr_list web_logs_columns))
          (\<lambda>_. bind (say (''Social data columns: '' @ repr_list social_data_columns))
          (\<lambda>_. bind (say (''Sensor data columns: '' @ repr_list sensor_data_columns))
          (\<lambda>_. ret (Some (web_logs, social_data, sensor_data))))))))))
       (\<lambda>e. bind (say (''Error loading data: '' @ str_exn e)) (\<lambda>_. ret None))"

text \<open>The export files, named as in the five \<open>to_csv\<close> calls.\<close>

definition web_traffic_by_endpoint_file :: string where
  "web_traffic_by_endpoint_file = ''data/exports/web_traffic_by_endpoint/000000_0''"

definition web_traffic_hourly_file :: string where
  "web_traffic_hourly_file = ''data/exports/web_traffic_hourly/000000_0''"

definition social_engagement_file :: string where
  "social_engagement_file = ''data/exports/social_engagement/000000_0''"

definition sensor_readings_file :: string where
  "sensor_readings_file = ''data/exports/sensor_readings/000000_0''"

definition correlation_data_file :: string where
  "correlation_data_file = ''data/exports/correlation_data/000000_0''"

text \<open>
  The five aggregates of a run, in the order in which they are saved, each with its
  file: the correlation table is the one the \<open>try\<close> around the merge produced.
\<close>

definition exports ::
  "web_log list \<Rightarrow> social_post list \<Rightarrow> sensor_reading list \<Rightarrow> correlation_row list
     \<Rightarrow> (string \<times> dataframe) list" where
  "exports web_logs social_data sensor_data correlation =
     [(web_traffic_by_endpoint_file, web_traffic_daily_frame (web_traffic_daily web_logs)),
      (web_traffic_hourly_file, web_traffic_hourly_frame (web_traffic_hourly web_logs)),
      (social_engagement_file,
         social_engagement_daily_frame (social_engagement_daily social_data)),
      (sensor_readings_file, sensor_readings_daily_frame (sensor_readings_daily sensor_data)),
      (correlation_data_file, correlation_frame correlation)]"

fun save_exports :: "dp_env \<Rightarrow> (string \<times> dataframe) list \<Rightarrow> (unit, cell list list) call"
  where
  "save_exports env [] = ret ()"
| "save_exports env ((path, df) # rest) =
     bind (attempt (dp_to_csv env path) (Write path (to_csv_headerless df)))
       (\<lambda>_. save_exports env rest)"

fun make_directories :: "dp_env \<Rightarrow> string list \<Rightarrow> (unit, cell list list) call" where
  "make_directories env [] = ret ()"
| "make_directories env (d # ds) =
     bind (attempt (dp_makedirs env d) (Makedirs d)) (\<lambda>_. make_directories env ds)"

definition process_data_directly :: "dp_env \<Rightarrow> (unit, cell list list) call" where
  "process_data_directly env =
     bind (say ''Starting direct data processing...'')
       (\<lambda>_. bind (make_directories env [''data/processed'', ''data/exports''])
       (\<lambda>_. bind (load_processed env)
       (\<lambda>loaded. case loaded of
          None \<Rightarrow> ret ()
        | Some (web_logs, social_data, sensor_data) \<Rightarrow>
            bind (say ''Performing aggregations (equivalent to Hive queries)...'')
              (\<lambda>_. bind (correlation_data (merge_raises env) (web_daily web_logs)
                           (social_daily social_data))
              (\<lambda>correlation. bind (say ''Saving processed data to exports directory...'')
              (\<lambda>_. bind (make_directories env
                           [''data/exports/web_traffic_by_endpoint'',
                            ''data/exports/web_traffic_hourly'',
                            ''data/exports/social_engagement'',
                            ''data/exports/sensor_readings'',
                            ''data/exports/correlation_data''])
              (\<lambda>_. bind (save_exports env
                           (exports web_logs social_data sensor_data correlation))
              (\<lambda>_. bind (say ''Direct data processing completed successfully!'')
              (\<lambda>_. bind (say ''Results saved to data/exports/ directory.'')
              (\<lambda>_. say (''You can now run prepare_for_visualization.py to prepare data ''
                         @ ''for Tableau/Power BI.'')))))))))))"

section \<open>The visualization preparer: prepare_for_visualization.py\<close>

subsection \<open>Paths and column names\<close>









subsection \<open>Reading a headerless file\<close>



subsection \<open>Columns of a frame\<close>







subsection \<open>The outside world and the outputs\<close>

text \<open>
  \<open>path_exists\<close> is \<open>os.path.exists\<close>, \<open>listdir\<close> is \<open>os.listdir\<close>, \<open>read_records\<close> gives
  the records that \<open>read_csv\<close> finds in a file (or the exception of opening or
  tokenizing it), \<open>vz_to_datetime\<close> converts one element of a column (\<open>Inr None\<close> is
  NaT), \<open>vz_to_csv\<close> is \<open>df.to_csv(path, index=False)\<close>, \<open>json_dump\<close> is the \<open>open\<close> and
  \<open>json.dump\<close> of the manifest and \<open>now\<close> is the formatted \<open>datetime.now()\<close>.
\<close>

record viz_env =
  vz_makedirs :: "string \<Rightarrow> exn option"
  path_exists :: "string \<Rightarrow> bool"
  listdir :: "string \<Rightarrow> exn + string list"
  read_records :: "string \<Rightarrow> exn + cell list list"
  vz_to_datetime :: "cell list \<Rightarrow> cell \<Rightarrow> exn + pd_timestamp option"
  vz_to_csv :: "string \<Rightarrow> exn option"
  json_dump :: "string \<Rightarrow> exn option"
  now :: string




subsection \<open>load_data\<close>


subsection \<open>The two loops and the script\<close>







section \<open>Ranges of the generator: collect_data.py\<close>

text \<open>
  \<open>generate_social_data\<close> draws \<open>likes\<close> with \<open>random.randint(0, 1000)\<close>, \<open>shares\<close> with
  \<open>random.randint(0, 200)\<close> and \<open>comments\<close> with \<open>random.randint(0, 50)\<close>.
\<close>

definition generated_counts :: "social_post \<Rightarrow> bool" where
  "generated_counts p \<longleftrightarrow>
     0 \<le> sint (sp_likes p) \<and> sint (sp_likes p) \<le> 1000 \<and>
     0 \<le> sint (sp_shares p) \<and> sint (sp_shares p) \<le> 200 \<and>
     0 \<le> sint (sp_comments p) \<and> sint (sp_comments p) \<le> 50"

section \<open>Example data\<close>

text \<open>
  A small run of the pipeline, used to evaluate the definitions: three web-log rows (two
  on 2024-01-01 for \<open>/home\<close> with status 200 and 404, the first without \<open>user_id\<close>; one
  on 2024-01-02), one social post on 2024-01-01 and two sensor readings.
\<close>

definition example_timestamp :: pd_timestamp where
  "example_timestamp =
     \<lparr> dt_date = ''2024-01-01'', dt_hour = 10, dt_year = 2024, dt_month = 1, dt_day = 1,
       dt_day_name = ''Monday'' \<rparr>"

definition example_timestamp2 :: pd_timestamp where
  "example_timestamp2 =
     \<lparr> dt_date = ''2024-01-02'', dt_hour = 11, dt_year = 2024, dt_month = 1, dt_day = 2,
       dt_day_name = ''Tuesday'' \<rparr>"

definition example_to_datetime :: "string option list \<Rightarrow> string \<Rightarrow> exn + pd_timestamp" where
  "example_to_datetime col s =
     (if s = ''2024-01-01 10:00:00'' then Inr example_timestamp
      else if s = ''2024-01-02 11:30:00'' then Inr example_timestamp2
      else Inl (Exception (''Unknown datetime string format, unable to parse: '' @ s)))"

definition example_raw_web_logs :: "raw_web_log list" where
  "example_raw_web_logs =
     [\<lparr> rw_timestamp = Some ''2024-01-01 10:00:00'', rw_ip_address = Some ''10.0.0.1'',
        rw_user_id = None, rw_method = ''GET'', rw_endpoint = Some ''/home'',
        rw_status_code = Some 200, rw_response_time = Some 0.5,
        rw_user_agent = ''Mozilla/5.0'' \<rparr>,
      \<lparr> rw_timestamp = Some ''2024-01-01 10:00:00'', rw_ip_address = Some ''10.0.0.2'',
        rw_user_id = Some ''u-17'', rw_method = ''POST'', rw_endpoint = Some ''/home'',
        rw_status_code = Some 404, rw_response_time = Some 1.5,
        rw_user_agent = ''Mozilla/5.0'' \<rparr>,
      \<lparr> rw_timestamp = Some ''2024-01-02 11:30:00'', rw_ip_address = Some ''10.0.0.1'',
        rw_user_id = None, rw_method = ''GET'', rw_endpoint = Some ''/about'',
        rw_status_code = Some 500, rw_response_time = Some 2,
        rw_user_agent = ''Mozilla/5.0'' \<rparr>]"

definition example_raw_social :: "raw_social_post list" where
  "example_raw_social =
     [\<lparr> rs_post_id = Some ''p-1'', rs_user_handle = ''ann'',
        rs_timestamp = Some ''2024-01-01 10:00:00'', rs_content = ''hello'',
        rs_likes = 10, rs_shares = 3, rs_comments = 2, rs_sentiment = ''positive'',
        rs_category = Some ''product'', rs_platform = Some ''twitter'' \<rparr>]"

definition example_raw_sensor :: "raw_sensor_reading list" where
  "example_raw_sensor =
     [\<lparr> rn_timestamp = Some ''2024-01-01 10:00:00'', rn_sensor_id = Some ''SENS-1000'',
        rn_sensor_type = Some ''temperature'', rn_location = Some ''room1'',
        rn_value = Some 21.5, rn_battery_level = 15, rn_status = ''active'' \<rparr>,
      \<lparr> rn_timestamp = Some ''2024-01-02 11:30:00'', rn_sensor_id = Some ''SENS-2000'',
        rn_sensor_type = Some ''co2'', rn_location = Some ''basement'',
        rn_value = Some 800, rn_battery_level = 95, rn_status = ''error'' \<rparr>]"

definition example_env :: env where
  "example_env =
     \<lparr> makedirs = (\<lambda>path. None),
       read_web_logs = Inr example_raw_web_logs,
       read_social = Inr example_raw_social,
       read_sensor = Inr example_raw_sensor,
       to_datetime = example_to_datetime,
       to_csv = (\<lambda>path. None),
       run = (\<lambda>cmd. None) \<rparr>"

definition example_web_logs :: "web_log list" where
  "example_web_logs =
     map2 web_log_row example_raw_web_logs
       [Some example_timestamp, Some example_timestamp, Some example_timestamp2]"

definition example_social_data :: "social_post list" where
  "example_social_data = map2 social_post_row example_raw_social [Some example_timestamp]"

definition example_sensor_data :: "sensor_reading list" where
  "example_sensor_data =
     map2 sensor_reading_row example_raw_sensor
       [Some example_timestamp, Some example_timestamp2]"

text \<open>
  Two failing worlds: one where the output directory cannot be made, one where the raw
  web-log file is missing.
\<close>

definition failing_makedirs_env :: env where
  "failing_makedirs_env =
     example_env \<lparr> makedirs := (\<lambda>path. Some (Exception ''[Errno 13] Permission denied: data'')) \<rparr>"

definition missing_web_logs_env :: env where
  "missing_web_logs_env =
     example_env \<lparr> read_web_logs :=
       Inl (Exception ''[Errno 2] No such file or directory: data/raw/logs/web_access_logs.csv'') \<rparr>"

text \<open>
  A raw web-log file with two rows on 2024-01-01 for \<open>/home\<close>, the first with an empty
  \<open>status_code\<close> cell, the second with status 200.
\<close>

definition missing_status_raw :: "raw_web_log list" where
  "missing_status_raw =
     [\<lparr> rw_timestamp = Some ''2024-01-01 10:00:00'', rw_ip_address = Some ''10.0.0.1'',
        rw_user_id = None, rw_method = ''GET'', rw_endpoint = Some ''/home'',
        rw_status_code = None, rw_response_time = Some 0.5,
        rw_user_agent = ''Mozilla/5.0'' \<rparr>,
      \<lparr> rw_timestamp = Some ''2024-01-01 10:00:00'', rw_ip_address = Some ''10.0.0.2'',
        rw_user_id = Some ''u-17'', rw_method = ''POST'', rw_endpoint = Some ''/home'',
        rw_status_code = Some 200, rw_response_time = Some 1.5,
        rw_user_agent = ''Mozilla/5.0'' \<rparr>]"

definition missing_status_env :: env where
  "missing_status_env = example_env \<lparr> read_web_logs := Inr missing_status_raw \<rparr>"

definition missing_status_web_logs :: "web_log list" where
  "missing_status_web_logs =
     map2 web_log_row missing_status_raw [Some example_timestamp, Some example_timestamp]"

text \<open>
  The aggregator run on the tables of the example, and the same run with a merge that
  raises.
\<close>

definition example_dp_env :: dp_env where
  "example_dp_env =
     \<lparr> dp_makedirs = (\<lambda>path. None),
       read_web_logs_processed = Inr example_web_logs,
       read_social_data_processed = Inr example_social_data,
       read_sensor_data_processed = Inr example_sensor_data,
       merge_raises = None,
       dp_to_csv = (\<lambda>path. None) \<rparr>"

definition failing_merge_env :: dp_env where
  "failing_merge_env =
     example_dp_env \<lparr> merge_raises :=
       Some (Exception ''You are trying to merge on object and int64 columns'') \<rparr>"




section \<open>Verified properties\<close>

subsection \<open>Rows of the processed tables\<close>

lemma convert_each_length:
  "convert_each conv xs = Inr ts \<Longrightarrow> length ts = length xs"
  by (induction xs arbitrary: ts) (auto split: sum.splits)

lemma to_datetime_col_length:
  "to_datetime_col conv xs = Inr ts \<Longrightarrow> length ts = length xs"
  unfolding to_datetime_col_def by (rule convert_each_length)

lemma web_logs_frame_rows:
  assumes "web_logs_frame env = Inr out"
  obtains raw tss where "read_web_logs env = Inr raw" "length tss = length raw"
    "out = map2 web_log_row raw tss"
  using assms unfolding web_logs_frame_def
  by (auto split: sum.splits dest: to_datetime_col_length)

lemma social_data_frame_rows:
  assumes "social_data_frame env = Inr out"
  obtains raw tss where "read_social env = Inr raw" "length tss = length raw"
    "out = map2 social_post_row raw tss"
  using assms unfolding social_data_frame_def
  by (auto split: sum.splits list.splits dest: to_datetime_col_length)

lemma sensor_data_frame_rows:
  assumes "sensor_data_frame env = Inr out"
  obtains raw tss where "read_sensor env = Inr raw" "length tss = length raw"
    "out = map2 sensor_reading_row raw tss"
  using assms unfolding sensor_data_frame_def
  by (auto split: sum.splits dest: to_datetime_col_length)

text \<open>A table that a processing function writes is the frame its \<open>try\<close> block built.\<close>

lemmas call_defs = bind_def say_def try_except_def attempt_def reading_def ret_def Let_def

lemma process_web_logs_written:
  "Write f (WebLogs out) \<in> set (snd (process_web_logs env)) \<Longrightarrow>
   web_logs_frame env = Inr out"
  unfolding process_web_logs_def
  by (auto simp: call_defs split: sum.splits option.splits prod.splits)

lemma process_social_data_written:
  "Write f (SocialData out) \<in> set (snd (process_social_data env)) \<Longrightarrow>
   social_data_frame env = Inr out"
  unfolding process_social_data_def
  by (auto simp: call_defs split: sum.splits option.splits prod.splits)

lemma process_sensor_data_written:
  "Write f (SensorData out) \<in> set (snd (process_sensor_data env)) \<Longrightarrow>
   sensor_data_frame env = Inr out"
  unfolding process_sensor_data_def
  by (auto simp: call_defs split: sum.splits option.splits prod.splits)

text \<open>The example run of the three processing functions.\<close>

lemma example_web_run:
  "process_web_logs example_env =
     (Inr True,
      [Makedirs ''data/processed'',
       Print ''Processing web logs from data/raw/logs/web_access_logs.csv...'',
       Write ''data/processed/web_logs_processed.csv'' (WebLogs example_web_logs),
       Print ''Processed web logs saved to data/processed/web_logs_processed.csv''])"
  by (simp add: process_web_logs_def example_env_def web_logs_frame_def
      example_raw_web_logs_def example_to_datetime_def example_web_logs_def to_datetime_col_def missing_is_nat_def
      call_defs)

lemma example_social_run:
  "process_social_data example_env =
     (Inr True,
      [Print ''Processing social data from data/raw/social/social_data.json...'',
       Write ''data/processed/social_data_processed.csv'' (SocialData example_social_data),
       Print ''Processed social data saved to data/processed/social_data_processed.csv''])"
  by (simp add: process_social_data_def example_env_def social_data_frame_def
      example_raw_social_def example_to_datetime_def example_social_data_def to_datetime_col_def missing_is_nat_def
      call_defs)

lemma example_sensor_run:
  "process_sensor_data example_env =
     (Inr True,
      [Print ''Processing sensor data from data/raw/logs/sensor_data.csv...'',
       Write ''data/processed/sensor_data_processed.csv'' (SensorData example_sensor_data),
       Print ''Processed sensor data saved to data/processed/sensor_data_processed.csv''])"
  by (simp add: process_sensor_data_def example_env_def sensor_data_frame_def
      example_raw_sensor_def example_to_datetime_def example_sensor_data_def to_datetime_col_def missing_is_nat_def
      call_defs)

subsection \<open>Sensor flags and battery buckets\<close>

lemma pd_cut_battery:
  "pd_cut [0, 20, 50, 80, 100] [''critical'', ''low'', ''medium'', ''high''] b =
     (if 0 < b \<and> b \<le> 20 then Some ''critical''
      else if 20 < b \<and> b \<le> 50 then Some ''low''
      else if 50 < b \<and> b \<le> 80 then Some ''medium''
      else if 80 < b \<and> b \<le> 100 then Some ''high''
      else None)"
  by simp

lemma sensor_reading_row_flags:
  assumes "battery_level_range (sn_battery_level (sensor_reading_row r ts))"
  shows "(sn_is_active (sensor_reading_row r ts)
            \<longleftrightarrow> sn_status (sensor_reading_row r ts) = ''active'')
       \<and> (sn_battery_category (sensor_reading_row r ts) = Some ''critical''
            \<longleftrightarrow> sn_battery_level (sensor_reading_row r ts) \<le> 20)
       \<and> (sn_battery_category (sensor_reading_row r ts) = Some ''high''
            \<longleftrightarrow> sn_battery_level (sensor_reading_row r ts) > 80)"
  using assms unfolding sensor_reading_row_def battery_level_range_def
  by (simp add: pd_cut_battery)

text \<open>
  Claim C5. In every row of a table that \<open>process_sensor_data\<close> writes, \<open>is_active\<close> is
  true exactly when \<open>status\<close> is \<open>'active'\<close>, and, for a \<open>battery_level\<close> in the range of
  the generator (10 to 100), \<open>battery_category\<close> is \<open>'critical'\<close> exactly when
  \<open>battery_level \<le> 20\<close> and \<open>'high'\<close> exactly when \<open>battery_level > 80\<close>.
\<close>

theorem sensor_rows_flags:
  assumes "Write f (SensorData out) \<in> set (snd (process_sensor_data env))"
    and "row \<in> set out"
    and "battery_level_range (sn_battery_level row)"
  shows "(sn_is_active row \<longleftrightarrow> sn_status row = ''active'')
       \<and> (sn_battery_category row = Some ''critical'' \<longleftrightarrow> sn_battery_level row \<le> 20)
       \<and> (sn_battery_category row = Some ''high'' \<longleftrightarrow> sn_battery_level row > 80)"
proof -
  from assms(1) have "sensor_data_frame env = Inr out"
    by (rule process_sensor_data_written)
  then obtain raw tss where "out = map2 sensor_reading_row raw tss"
    by (rule sensor_data_frame_rows)
  with assms(2) obtain r ts where "row = sensor_reading_row r ts"
    by (auto simp: in_set_zip)
  with assms(3) show ?thesis
    using sensor_reading_row_flags by simp
qed

theorem sensor_rows_flags_witness:
  "Write ''data/processed/sensor_data_processed.csv'' (SensorData example_sensor_data)
     \<in> set (snd (process_sensor_data example_env))
   \<and> example_sensor_data ! 0 \<in> set example_sensor_data
   \<and> battery_level_range (sn_battery_level (example_sensor_data ! 0))
   \<and> sn_battery_level (example_sensor_data ! 0) = 15
   \<and> sn_is_active (example_sensor_data ! 0)
   \<and> sn_status (example_sensor_data ! 0) = ''active''
   \<and> sn_battery_category (example_sensor_data ! 0) = Some ''critical''"
proof -
  have w: "Write ''data/processed/sensor_data_processed.csv'' (SensorData example_sensor_data)
             \<in> set (snd (process_sensor_data example_env))"
    by (simp add: example_sensor_run)
  have m: "example_sensor_data ! 0 \<in> set example_sensor_data"
    by (simp add: example_sensor_data_def example_raw_sensor_def)
  have l: "sn_battery_level (example_sensor_data ! 0) = 15"
    and a: "sn_status (example_sensor_data ! 0) = ''active''"
    by (simp_all add: example_sensor_data_def example_raw_sensor_def sensor_reading_row_def)
  have b: "battery_level_range (sn_battery_level (example_sensor_data ! 0))"
    by (simp add: l battery_level_range_def)
  show ?thesis
    using sensor_rows_flags [OF w m b] w m b l a by simp
qed

subsection \<open>Engagement score\<close>

text \<open>Within the ranges of the generator the int64 arithmetic does not wrap.\<close>

lemma engagement_no_wrap:
  fixes a b c :: "64 word"
  assumes "0 \<le> sint a" "sint a \<le> 1000" "0 \<le> sint b" "sint b \<le> 200"
    "0 \<le> sint c" "sint c \<le> 50"
  shows "sint (a + b * 2 + c * 3) = sint a + 2 * sint b + 3 * sint c"
proof -
  have "a + b * 2 + c * 3 = (word_of_int (sint a + sint b * 2 + sint c * 3) :: 64 word)"
    by simp
  then have "sint (a + b * 2 + c * 3) = signed_take_bit 63 (sint a + sint b * 2 + sint c * 3)"
    by (simp only: sint_sbintrunc') simp
  also have "\<dots> = sint a + sint b * 2 + sint c * 3"
    using assms by (intro signed_take_bit_int_eq_self) auto
  finally show ?thesis by simp
qed

text \<open>
  Claim C6. In every row of a table that \<open>process_social_data\<close> writes,
  \<open>engagement_score\<close> equals \<open>likes + 2*shares + 3*comments\<close>, in the int64 arithmetic
  of the columns; for counts in the ranges of the generator the same equation holds
  between the integers the columns stand for.
\<close>

theorem social_engagement_score:
  assumes "Write f (SocialData out) \<in> set (snd (process_social_data env))"
    and "p \<in> set out"
  shows "sp_engagement_score p = sp_likes p + 2 * sp_shares p + 3 * sp_comments p
       \<and> (generated_counts p \<longrightarrow>
            sint (sp_engagement_score p)
              = sint (sp_likes p) + 2 * sint (sp_shares p) + 3 * sint (sp_comments p))"
proof -
  from assms(1) have "social_data_frame env = Inr out"
    by (rule process_social_data_written)
  then obtain raw tss where "out = map2 social_post_row raw tss"
    by (rule social_data_frame_rows)
  with assms(2) obtain r ts where p: "p = social_post_row r ts"
    by (auto simp: in_set_zip)
  have "sp_engagement_score p = sp_likes p + 2 * sp_shares p + 3 * sp_comments p"
    by (simp add: p social_post_row_def)
  moreover have "sint (sp_engagement_score p)
      = sint (sp_likes p) + 2 * sint (sp_shares p) + 3 * sint (sp_comments p)"
    if "generated_counts p"
    using that engagement_no_wrap [of "rs_likes r" "rs_shares r" "rs_comments r"]
    by (simp add: p social_post_row_def generated_counts_def)
  ultimately show ?thesis by simp
qed

theorem social_engagement_score_witness:
  "Write ''data/processed/social_data_processed.csv'' (SocialData example_social_data)
     \<in> set (snd (process_social_data example_env))
   \<and> example_social_data ! 0 \<in> set example_social_data
   \<and> generated_counts (example_social_data ! 0)
   \<and> sp_likes (example_social_data ! 0) = 10
   \<and> sp_shares (example_social_data ! 0) = 3
   \<and> sp_comments (example_social_data ! 0) = 2
   \<and> sp_engagement_score (example_social_data ! 0) = 22
   \<and> sint (sp_engagement_score (example_social_data ! 0)) = 22"
proof -
  have w: "Write ''data/processed/social_data_processed.csv'' (SocialData example_social_data)
             \<in> set (snd (process_social_data example_env))"
    by (simp add: example_social_run)
  have m: "example_social_data ! 0 \<in> set example_social_data"
    by (simp add: example_social_data_def example_raw_social_def)
  have v: "sp_likes (example_social_data ! 0) = 10" "sp_shares (example_social_data ! 0) = 3"
    "sp_comments (example_social_data ! 0) = 2"
    by (simp_all add: example_social_data_def example_raw_social_def social_post_row_def)
  have g: "generated_counts (example_social_data ! 0)"
    by (simp add: generated_counts_def v)
  show ?thesis
    using social_engagement_score [OF w m] w m v g by simp
qed

subsection \<open>Missing user identifiers\<close>

text \<open>
  Claim C7. A table that \<open>process_web_logs\<close> writes has one row per row of the raw
  input, in the same order; a row whose \<open>user_id\<close> is missing in the raw input has
  \<open>user_id = 'anonymous'\<close>, and a row with a \<open>user_id\<close> keeps it.
\<close>

theorem missing_user_id_anonymous:
  assumes "Write f (WebLogs out) \<in> set (snd (process_web_logs env))"
  shows "\<exists>raw. read_web_logs env = Inr raw \<and> length out = length raw \<and>
           (\<forall>i<length raw.
              (rw_user_id (raw ! i) = None \<longrightarrow> wl_user_id (out ! i) = ''anonymous'') \<and>
              (\<forall>u. rw_user_id (raw ! i) = Some u \<longrightarrow> wl_user_id (out ! i) = u))"
proof -
  from assms have "web_logs_frame env = Inr out"
    by (rule process_web_logs_written)
  then obtain raw tss where "read_web_logs env = Inr raw" "length tss = length raw"
    "out = map2 web_log_row raw tss"
    by (rule web_logs_frame_rows)
  then show ?thesis
    by (auto simp: web_log_row_def fillna_def)
qed

theorem missing_user_id_anonymous_witness:
  "Write ''data/processed/web_logs_processed.csv'' (WebLogs example_web_logs)
     \<in> set (snd (process_web_logs example_env))
   \<and> read_web_logs example_env = Inr example_raw_web_logs
   \<and> length example_web_logs = 3
   \<and> rw_user_id (example_raw_web_logs ! 0) = None
   \<and> wl_user_id (example_web_logs ! 0) = ''anonymous''
   \<and> rw_user_id (example_raw_web_logs ! 1) = Some ''u-17''
   \<and> wl_user_id (example_web_logs ! 1) = ''u-17''"
proof -
  have w: "Write ''data/processed/web_logs_processed.csv'' (WebLogs example_web_logs)
             \<in> set (snd (process_web_logs example_env))"
    by (simp add: example_web_run)
  have r: "read_web_logs example_env = Inr example_raw_web_logs"
    by (simp add: example_env_def)
  have n: "length example_raw_web_logs = 3"
    and u: "rw_user_id (example_raw_web_logs ! 0) = None"
      "rw_user_id (example_raw_web_logs ! 1) = Some ''u-17''"
    by (simp_all add: example_raw_web_logs_def)
  from missing_user_id_anonymous [OF w] r
  have *: "length example_web_logs = length example_raw_web_logs \<and>
     (\<forall>i<length example_raw_web_logs.
        (rw_user_id (example_raw_web_logs ! i) = None
           \<longrightarrow> wl_user_id (example_web_logs ! i) = ''anonymous'') \<and>
        (\<forall>u. rw_user_id (example_raw_web_logs ! i) = Some u
           \<longrightarrow> wl_user_id (example_web_logs ! i) = u))"
    by simp
  from * n u have "wl_user_id (example_web_logs ! 0) = ''anonymous''"
    by (metis zero_less_numeral)
  moreover from * n u have "wl_user_id (example_web_logs ! 1) = ''u-17''"
    by (metis one_less_numeral_iff semiring_norm(77))
  ultimately show ?thesis
    using w r n u * by simp
qed

subsection \<open>Exceptions in the processing functions\<close>

lemma social_returns: "\<exists>b. fst (process_social_data env) = Inr b"
  unfolding process_social_data_def
  by (auto simp: call_defs split: sum.splits option.splits prod.splits)

lemma sensor_returns: "\<exists>b. fst (process_sensor_data env) = Inr b"
  unfolding process_sensor_data_def
  by (auto simp: call_defs split: sum.splits option.splits prod.splits)

lemma web_returns:
  "makedirs env ''data/processed'' = None \<Longrightarrow> \<exists>b. fst (process_web_logs env) = Inr b"
  unfolding process_web_logs_def
  by (auto simp: call_defs split: sum.splits option.splits prod.splits)

lemma web_propagates:
  "makedirs env ''data/processed'' = Some e \<Longrightarrow> process_web_logs env = (Inl e, [])"
  unfolding process_web_logs_def by (simp add: call_defs)

lemma web_caught:
  assumes "makedirs env ''data/processed'' = None"
    and "web_logs_frame env = Inl e \<or>
         (\<exists>df. web_logs_frame env = Inr df) \<and>
           to_csv env ''data/processed/web_logs_processed.csv'' = Some e"
  shows "process_web_logs env =
     (Inr False,
      [Makedirs ''data/processed'',
       Print ''Processing web logs from data/raw/logs/web_access_logs.csv...'',
       Print (''Error processing web logs: '' @ str_exn e)])"
  using assms unfolding process_web_logs_def
  by (auto simp: call_defs split: sum.splits option.splits prod.splits)

lemma social_caught:
  assumes "social_data_frame env = Inl e \<or>
         (\<exists>df. social_data_frame env = Inr df) \<and>
           to_csv env ''data/processed/social_data_processed.csv'' = Some e"
  shows "process_social_data env =
     (Inr False,
      [Print ''Processing social data from data/raw/social/social_data.json...'',
       Print (''Error processing social data: '' @ str_exn e)])"
  using assms unfolding process_social_data_def
  by (auto simp: call_defs split: sum.splits option.splits prod.splits)

lemma sensor_caught:
  assumes "sensor_data_frame env = Inl e \<or>
         (\<exists>df. sensor_data_frame env = Inr df) \<and>
           to_csv env ''data/processed/sensor_data_processed.csv'' = Some e"
  shows "process_sensor_data env =
     (Inr False,
      [Print ''Processing sensor data from data/raw/logs/sensor_data.csv...'',
       Print (''Error processing sensor data: '' @ str_exn e)])"
  using assms unfolding process_sensor_data_def
  by (auto simp: call_defs split: sum.splits option.splits prod.splits)

lemma main_runs_all:
  assumes "fst (process_web_logs env) = Inr b"
  shows "\<exists>rest. snd (main env) =
           Print ''Starting data processing...'' # snd (process_web_logs env)
             @ snd (process_social_data env) @ snd (process_sensor_data env) @ rest"
proof -
  obtain t1 where w: "process_web_logs env = (Inr b, t1)"
    using assms by (cases "process_web_logs env") auto
  obtain b2 t2 where s: "process_social_data env = (Inr b2, t2)"
    using social_returns [of env] by (cases "process_social_data env") auto
  obtain b3 t3 where n: "process_sensor_data env = (Inr b3, t3)"
    using sensor_returns [of env] by (cases "process_sensor_data env") auto
  show ?thesis
    unfolding main_def
    by (auto simp: w s n bind_def say_def ret_def split: sum.splits prod.splits)
qed

subsection \<open>The upload gate\<close>

lemma web_no_upload: "\<not> upload_invoked (snd (process_web_logs env))"
  unfolding process_web_logs_def upload_invoked_def
  by (auto simp: call_defs uploading_message_def split: sum.splits option.splits prod.splits)

lemma social_no_upload: "\<not> upload_invoked (snd (process_social_data env))"
  unfolding process_social_data_def upload_invoked_def
  by (auto simp: call_defs uploading_message_def split: sum.splits option.splits prod.splits)

lemma sensor_no_upload: "\<not> upload_invoked (snd (process_sensor_data env))"
  unfolding process_sensor_data_def upload_invoked_def
  by (auto simp: call_defs uploading_message_def split: sum.splits option.splits prod.splits)

lemma upload_invoked_append [simp]:
  "upload_invoked (xs @ ys) \<longleftrightarrow> upload_invoked xs \<or> upload_invoked ys"
  by (simp add: upload_invoked_def)

lemma upload_invoked_Cons:
  "upload_invoked (x # xs) \<longleftrightarrow> upload_event x \<or> upload_invoked xs"
  by (simp add: upload_invoked_def)

lemma main_skips:
  assumes w: "process_web_logs env = (Inr b1, t1)"
    and s: "process_social_data env = (Inr b2, t2)"
    and n: "process_sensor_data env = (Inr b3, t3)"
    and f: "\<not> (b1 \<and> b2 \<and> b3)"
  shows "main env =
     (Inr (), Print ''Starting data processing...'' # t1 @ t2 @ t3 @
        [Print skipping_message, Print ''Data processing completed.''])"
  using f unfolding main_def
  by (auto simp: w s n bind_def say_def ret_def)

lemma main_upload_only_if:
  assumes "upload_invoked (snd (main env))"
  shows "fst (process_web_logs env) = Inr True \<and> fst (process_social_data env) = Inr True
       \<and> fst (process_sensor_data env) = Inr True"
proof (cases "process_web_logs env")
  case (Pair r1 t1)
  note w = this
  show ?thesis
  proof (cases r1)
    case (Inl e)
    with w have "main env = (Inl e, Print ''Starting data processing...'' # t1)"
      unfolding main_def by (simp add: bind_def say_def)
    with assms web_no_upload [of env] w show ?thesis
      by (simp add: upload_invoked_Cons upload_invoked_def uploading_message_def)
  next
    case (Inr b1)
    obtain b2 t2 where s: "process_social_data env = (Inr b2, t2)"
      using social_returns [of env] by (cases "process_social_data env") auto
    obtain b3 t3 where n: "process_sensor_data env = (Inr b3, t3)"
      using sensor_returns [of env] by (cases "process_sensor_data env") auto
    have "b1 \<and> b2 \<and> b3"
    proof (rule ccontr)
      assume "\<not> (b1 \<and> b2 \<and> b3)"
      from main_skips [OF w [unfolded Inr] s n this] assms
        web_no_upload [of env] social_no_upload [of env] sensor_no_upload [of env]
      show False
        by (simp add: w s n upload_invoked_Cons upload_invoked_def uploading_message_def
            skipping_message_def)
    qed
    then show ?thesis by (simp add: w Inr s n)
  qed
qed


text \<open>
  Claim C8, as amended. \<open>process_social_data\<close> and \<open>process_sensor_data\<close> never let an
  exception reach their caller. \<open>process_web_logs\<close> does not either once its
  \<open>os.makedirs\<close> call, which stands before its \<open>try\<close>, has returned. In each function
  an exception raised inside the \<open>try\<close> (while reading, converting or saving) is caught:
  the error message is printed and the function returns \<open>False\<close>. When
  \<open>process_web_logs\<close> returns, the script runs the two other functions after it,
  whatever the three return.
\<close>

theorem processing_exceptions_caught:
  "(\<exists>b. fst (process_social_data env) = Inr b)
   \<and> (\<exists>b. fst (process_sensor_data env) = Inr b)
   \<and> (makedirs env ''data/processed'' = None \<longrightarrow>
        (\<exists>b. fst (process_web_logs env) = Inr b)
        \<and> (\<forall>e. web_logs_frame env = Inl e \<or>
                 (\<exists>df. web_logs_frame env = Inr df) \<and>
                   to_csv env ''data/processed/web_logs_processed.csv'' = Some e \<longrightarrow>
               process_web_logs env =
                 (Inr False,
                  [Makedirs ''data/processed'',
                   Print ''Processing web logs from data/raw/logs/web_access_logs.csv...'',
                   Print (''Error processing web logs: '' @ str_exn e)]))
        \<and> (\<exists>rest. snd (main env) =
              Print ''Starting data processing...'' # snd (process_web_logs env)
                @ snd (process_social_data env) @ snd (process_sensor_data env) @ rest))
   \<and> (\<forall>e. social_data_frame env = Inl e \<or>
            (\<exists>df. social_data_frame env = Inr df) \<and>
              to_csv env ''data/processed/social_data_processed.csv'' = Some e \<longrightarrow>
          process_social_data env =
            (Inr False,
             [Print ''Processing social data from data/raw/social/social_data.json...'',
              Print (''Error processing social data: '' @ str_exn e)]))
   \<and> (\<forall>e. sensor_data_frame env = Inl e \<or>
            (\<exists>df. sensor_data_frame env = Inr df) \<and>
              to_csv env ''data/processed/sensor_data_processed.csv'' = Some e \<longrightarrow>
          process_sensor_data env =
            (Inr False,
             [Print ''Processing sensor data from data/raw/logs/sensor_data.csv...'',
              Print (''Error processing sensor data: '' @ str_exn e)]))"
proof -
  have "\<exists>rest. snd (main env) =
              Print ''Starting data processing...'' # snd (process_web_logs env)
                @ snd (process_social_data env) @ snd (process_sensor_data env) @ rest"
    if "makedirs env ''data/processed'' = None"
    using web_returns [OF that] main_runs_all by blast
  then show ?thesis
    using social_returns sensor_returns web_returns web_caught social_caught sensor_caught
    by (intro conjI impI allI) blast+
qed

lemma missing_web_frame:
  "web_logs_frame missing_web_logs_env =
     Inl (Exception ''[Errno 2] No such file or directory: data/raw/logs/web_access_logs.csv'')"
  by (simp add: web_logs_frame_def missing_web_logs_env_def example_env_def)

lemma missing_web_social: "process_social_data missing_web_logs_env = process_social_data example_env"
  by (simp add: process_social_data_def social_data_frame_def missing_web_logs_env_def
      example_env_def cong: list.case_cong)

lemma missing_web_sensor: "process_sensor_data missing_web_logs_env = process_sensor_data example_env"
  by (simp add: process_sensor_data_def sensor_data_frame_def missing_web_logs_env_def example_env_def)

theorem processing_exceptions_caught_witness:
  "makedirs missing_web_logs_env ''data/processed'' = None
   \<and> process_web_logs missing_web_logs_env =
       (Inr False,
        [Makedirs ''data/processed'',
         Print ''Processing web logs from data/raw/logs/web_access_logs.csv...'',
         Print ''Error processing web logs: [Errno 2] No such file or directory: data/raw/logs/web_access_logs.csv''])
   \<and> fst (process_social_data missing_web_logs_env) = Inr True
   \<and> fst (process_sensor_data missing_web_logs_env) = Inr True
   \<and> Write ''data/processed/social_data_processed.csv'' (SocialData example_social_data)
       \<in> set (snd (main missing_web_logs_env))
   \<and> Write ''data/processed/sensor_data_processed.csv'' (SensorData example_sensor_data)
       \<in> set (snd (main missing_web_logs_env))"
proof -
  have m: "makedirs missing_web_logs_env ''data/processed'' = None"
    by (simp add: missing_web_logs_env_def example_env_def)
  note t = processing_exceptions_caught [of missing_web_logs_env]
  from t m missing_web_frame
  have c: "process_web_logs missing_web_logs_env =
       (Inr False,
        [Makedirs ''data/processed'',
         Print ''Processing web logs from data/raw/logs/web_access_logs.csv...'',
         Print (''Error processing web logs: '' @ str_exn (Exception ''[Errno 2] No such file or directory: data/raw/logs/web_access_logs.csv''))])"
    by blast
  from t m obtain rest where r: "snd (main missing_web_logs_env) =
      Print ''Starting data processing...'' # snd (process_web_logs missing_web_logs_env)
        @ snd (process_social_data missing_web_logs_env)
        @ snd (process_sensor_data missing_web_logs_env) @ rest"
    by blast
  show ?thesis
    using m c
    by (simp add: r missing_web_social missing_web_sensor example_social_run example_sensor_run)
qed

text \<open>
  Claim C8 as stated fails: an exception of \<open>os.makedirs\<close> in \<open>process_web_logs\<close> is
  raised before the \<open>try\<close>, leaves the function and ends the script before the two
  other functions run.
\<close>

theorem makedirs_exception_propagates:
  "process_web_logs failing_makedirs_env =
     (Inl (Exception ''[Errno 13] Permission denied: data''), [])
   \<and> main failing_makedirs_env =
       (Inl (Exception ''[Errno 13] Permission denied: data''),
        [Print ''Starting data processing...''])"
  by (simp add: main_def process_web_logs_def failing_makedirs_env_def example_env_def call_defs)

text \<open>
  Claim C9. In every run of the script, \<open>upload_to_hdfs\<close> is entered (and a subprocess
  started) only if the three processing functions returned \<open>True\<close>; if one of them
  returned \<open>False\<close>, the upload is not invoked, the script prints that the upload is
  skipped, and it runs to its end.
\<close>

theorem upload_only_if_all_ok:
  "(upload_invoked (snd (main env)) \<longrightarrow>
      fst (process_web_logs env) = Inr True \<and> fst (process_social_data env) = Inr True
      \<and> fst (process_sensor_data env) = Inr True)
   \<and> ((\<exists>b. fst (process_web_logs env) = Inr b) \<and>
       (fst (process_web_logs env) = Inr False \<or> fst (process_social_data env) = Inr False
        \<or> fst (process_sensor_data env) = Inr False) \<longrightarrow>
      \<not> upload_invoked (snd (main env)) \<and> Print skipping_message \<in> set (snd (main env))
      \<and> fst (main env) = Inr ())"
proof -
  have one: "fst (process_web_logs env) = Inr True \<and> fst (process_social_data env) = Inr True
      \<and> fst (process_sensor_data env) = Inr True"
    if "upload_invoked (snd (main env))"
    using that by (rule main_upload_only_if)
  have two: "\<not> upload_invoked (snd (main env)) \<and> Print skipping_message \<in> set (snd (main env))
      \<and> fst (main env) = Inr ()"
    if a: "(\<exists>b. fst (process_web_logs env) = Inr b) \<and>
       (fst (process_web_logs env) = Inr False \<or> fst (process_social_data env) = Inr False
        \<or> fst (process_sensor_data env) = Inr False)"
  proof -
    from a obtain b1 t1 where w: "process_web_logs env = (Inr b1, t1)"
      by (cases "process_web_logs env") auto
    obtain b2 t2 where s: "process_social_data env = (Inr b2, t2)"
      using social_returns [of env] by (cases "process_social_data env") auto
    obtain b3 t3 where n: "process_sensor_data env = (Inr b3, t3)"
      using sensor_returns [of env] by (cases "process_sensor_data env") auto
    from a have "\<not> (b1 \<and> b2 \<and> b3)"
      by (auto simp: w s n)
    from main_skips [OF w s n this]
    have m: "main env =
       (Inr (), Print ''Starting data processing...'' # t1 @ t2 @ t3 @
          [Print skipping_message, Print ''Data processing completed.''])" .
    from a main_upload_only_if [of env] have "\<not> upload_invoked (snd (main env))"
      by auto
    with m show ?thesis
      by simp
  qed
  from one two show ?thesis
    by blast
qed

theorem upload_only_if_all_ok_witness:
  "fst (process_web_logs missing_web_logs_env) = Inr False
   \<and> \<not> upload_invoked (snd (main missing_web_logs_env))
   \<and> Print skipping_message \<in> set (snd (main missing_web_logs_env))
   \<and> fst (main missing_web_logs_env) = Inr ()
   \<and> upload_invoked (snd (main example_env))
   \<and> fst (process_web_logs example_env) = Inr True
   \<and> fst (process_social_data example_env) = Inr True
   \<and> fst (process_sensor_data example_env) = Inr True"
proof -
  have m: "makedirs missing_web_logs_env ''data/processed'' = None"
    by (simp add: missing_web_logs_env_def example_env_def)
  have f: "fst (process_web_logs missing_web_logs_env) = Inr False"
    using web_caught [OF m disjI1, OF missing_web_frame] by simp
  have "fst (upload_to_hdfs example_env) = Inr True"
    by (simp add: upload_to_hdfs_def upload_file_def subprocess_run_def example_env_def
        bind_def say_def ret_def try_except_def Let_def)
  then obtain t4 where "upload_to_hdfs example_env = (Inr True, Print uploading_message # t4)"
    by (cases "upload_to_hdfs example_env")
      (auto simp: upload_to_hdfs_def bind_def say_def split: prod.splits sum.splits)
  then have u: "upload_invoked (snd (main example_env))"
    by (simp add: main_def example_web_run example_social_run example_sensor_run
        upload_invoked_def bind_def say_def ret_def)
  show ?thesis
    using upload_only_if_all_ok [of missing_web_logs_env] upload_only_if_all_ok [of example_env]
      f u by auto
qed

subsection \<open>Grouping\<close>

lemma set_map_filter: "set (List.map_filter f xs) = {y. \<exists>x \<in> set xs. f x = Some y}"
  by (induction xs) (auto simp: map_filter_simps split: option.splits)

lemma groupby_keys: "map fst (groupby key df) = sort (remdups (List.map_filter key df))"
  by (simp add: groupby_def comp_def)

lemma groupby_keys_distinct: "distinct (map fst (groupby key df))"
  by (simp add: groupby_keys)

lemma groupby_keys_set: "set (map fst (groupby key df)) = {k. Some k \<in> key ` set df}"
  by (force simp: groupby_keys set_map_filter image_iff)

lemma groupby_group:
  "(k, g) \<in> set (groupby key df) \<Longrightarrow>
   g = filter (\<lambda>r. key r = Some k) df \<and> Some k \<in> key ` set df"
  by (force simp: groupby_def set_map_filter image_iff)

lemma key2_Some: "key2 a b = Some (x, y) \<longleftrightarrow> a = Some x \<and> b = Some y"
  by (auto simp: key2_def split: option.splits)

lemma Some_key2: "Some (x, y) = key2 a b \<longleftrightarrow> a = Some x \<and> b = Some y"
  by (auto simp: key2_def split: option.splits)

subsection \<open>The per-(date, endpoint) aggregate\<close>

lemma web_traffic_daily_keys:
  "map (\<lambda>a. (wtd_date a, wtd_endpoint a)) (web_traffic_daily web_logs)
     = map fst (groupby (\<lambda>r. key2 (wl_date r) (wl_endpoint r)) web_logs)"
  by (simp add: web_traffic_daily_def comp_def case_prod_beta)

lemma web_traffic_daily_row:
  assumes "a \<in> set (web_traffic_daily web_logs)"
  shows "wtd_total_requests a =
           int (length (filter (\<lambda>r. wl_date r = Some (wtd_date a)
                                   \<and> wl_endpoint r = Some (wtd_endpoint a)
                                   \<and> wl_status_code r \<noteq> None) web_logs))
       \<and> wtd_error_count a =
           int (length (filter (\<lambda>r. wl_date r = Some (wtd_date a)
                                   \<and> wl_endpoint r = Some (wtd_endpoint a)
                                   \<and> wl_is_error r) web_logs))"
proof -
  from assms obtain d e g where
    g: "((d, e), g) \<in> set (groupby (\<lambda>r. key2 (wl_date r) (wl_endpoint r)) web_logs)"
    and a: "a = \<lparr> wtd_date = d, wtd_endpoint = e,
              wtd_total_requests = agg_count (map wl_status_code g),
              wtd_error_count = agg_sum_bool (map wl_is_error g),
              wtd_avg_response_time = agg_mean_skipna (map wl_response_time g),
              wtd_unique_visitors = agg_nunique (map wl_ip_address g) \<rparr>"
    by (auto simp: web_traffic_daily_def)
  from groupby_group [OF g]
  have "g = filter (\<lambda>r. wl_date r = Some d \<and> wl_endpoint r = Some e) web_logs"
    by (simp add: key2_Some)
  then show ?thesis
    by (simp add: a agg_count_def agg_sum_bool_def filter_map comp_def conj_commute
        conj_left_commute)
qed

lemma processed_is_error:
  assumes "Write f (WebLogs web_logs) \<in> set (snd (process_web_logs env))"
    and "r \<in> set web_logs"
  shows "wl_is_error r \<longleftrightarrow> (\<exists>c. wl_status_code r = Some c \<and> c \<ge> 400)"
proof -
  from assms(1) have "web_logs_frame env = Inr web_logs"
    by (rule process_web_logs_written)
  then obtain raw tss where "web_logs = map2 web_log_row raw tss"
    by (rule web_logs_frame_rows)
  with assms(2) obtain x ts where "r = web_log_row x ts"
    by (auto simp: in_set_zip)
  then show ?thesis
    by (simp add: web_log_row_def ge_cell_def split: option.splits)
qed

text \<open>
  Claim C2, as amended. For every web-log table that the processor writes, the
  per-(date, endpoint) aggregate has exactly one row per (date, endpoint) pair of the
  rows in which both are present; its \<open>total_requests\<close> is the number of rows with
  that pair whose \<open>status_code\<close> is present, which is the number of rows with that pair
  when none of them lacks its \<open>status_code\<close>, and its \<open>error_count\<close> is the number of
  rows with that pair whose \<open>status_code\<close> is present and \<open>\<ge> 400\<close>. The example has
  exactly two rows on 2024-01-01 for \<open>/home\<close>, with status 200 and 404: the aggregate
  row for that pair has \<open>total_requests = 2\<close> and \<open>error_count = 1\<close>.
\<close>

theorem web_traffic_daily_counts:
  assumes "Write f (WebLogs web_logs) \<in> set (snd (process_web_logs env))"
  shows "distinct (map (\<lambda>a. (wtd_date a, wtd_endpoint a)) (web_traffic_daily web_logs))
       \<and> set (map (\<lambda>a. (wtd_date a, wtd_endpoint a)) (web_traffic_daily web_logs))
           = {(d, e). \<exists>r \<in> set web_logs. wl_date r = Some d \<and> wl_endpoint r = Some e}
       \<and> (\<forall>a \<in> set (web_traffic_daily web_logs).
            wtd_total_requests a =
              int (length (filter (\<lambda>r. wl_date r = Some (wtd_date a)
                                      \<and> wl_endpoint r = Some (wtd_endpoint a)
                                      \<and> wl_status_code r \<noteq> None) web_logs))
          \<and> ((\<forall>r \<in> set web_logs. wl_date r = Some (wtd_date a)
                    \<and> wl_endpoint r = Some (wtd_endpoint a) \<longrightarrow> wl_status_code r \<noteq> None)
               \<longrightarrow> wtd_total_requests a =
                     int (length (filter (\<lambda>r. wl_date r = Some (wtd_date a)
                                             \<and> wl_endpoint r = Some (wtd_endpoint a))
                            web_logs)))
          \<and> wtd_error_count a =
              int (length (filter (\<lambda>r. wl_date r = Some (wtd_date a)
                                      \<and> wl_endpoint r = Some (wtd_endpoint a)
                                      \<and> (\<exists>c. wl_status_code r = Some c \<and> c \<ge> 400))
                     web_logs)))"
proof -
  have keys: "distinct (map (\<lambda>a. (wtd_date a, wtd_endpoint a)) (web_traffic_daily web_logs))"
    by (simp add: web_traffic_daily_keys groupby_keys)
  have "set (map (\<lambda>a. (wtd_date a, wtd_endpoint a)) (web_traffic_daily web_logs))
      = {k. Some k \<in> (\<lambda>r. key2 (wl_date r) (wl_endpoint r)) ` set web_logs}"
    by (simp only: web_traffic_daily_keys groupby_keys_set)
  also have "\<dots> = {(d, e). \<exists>r \<in> set web_logs. wl_date r = Some d \<and> wl_endpoint r = Some e}"
    by (auto simp: image_iff Some_key2)
  finally have kset:
    "set (map (\<lambda>a. (wtd_date a, wtd_endpoint a)) (web_traffic_daily web_logs))
      = {(d, e). \<exists>r \<in> set web_logs. wl_date r = Some d \<and> wl_endpoint r = Some e}" .
  have err: "filter (\<lambda>r. wl_date r = Some d \<and> wl_endpoint r = Some e \<and> wl_is_error r) web_logs
      = filter (\<lambda>r. wl_date r = Some d \<and> wl_endpoint r = Some e
                   \<and> (\<exists>c. wl_status_code r = Some c \<and> c \<ge> 400)) web_logs"
    for d e
    using processed_is_error [OF assms] by (intro filter_cong) auto
  have all: "filter (\<lambda>r. wl_date r = Some d \<and> wl_endpoint r = Some e
                         \<and> wl_status_code r \<noteq> None) web_logs
      = filter (\<lambda>r. wl_date r = Some d \<and> wl_endpoint r = Some e) web_logs"
    if "\<forall>r \<in> set web_logs. wl_date r = Some d \<and> wl_endpoint r = Some e
          \<longrightarrow> wl_status_code r \<noteq> None"
    for d e
    using that by (intro filter_cong) auto
  have rows: "wtd_total_requests a =
              int (length (filter (\<lambda>r. wl_date r = Some (wtd_date a)
                                      \<and> wl_endpoint r = Some (wtd_endpoint a)
                                      \<and> wl_status_code r \<noteq> None) web_logs))
          \<and> ((\<forall>r \<in> set web_logs. wl_date r = Some (wtd_date a)
                    \<and> wl_endpoint r = Some (wtd_endpoint a) \<longrightarrow> wl_status_code r \<noteq> None)
               \<longrightarrow> wtd_total_requests a =
                     int (length (filter (\<lambda>r. wl_date r = Some (wtd_date a)
                                             \<and> wl_endpoint r = Some (wtd_endpoint a))
                            web_logs)))
          \<and> wtd_error_count a =
              int (length (filter (\<lambda>r. wl_date r = Some (wtd_date a)
                                      \<and> wl_endpoint r = Some (wtd_endpoint a)
                                      \<and> (\<exists>c. wl_status_code r = Some c \<and> c \<ge> 400))
                     web_logs))"
    if "a \<in> set (web_traffic_daily web_logs)" for a
    using web_traffic_daily_row [OF that] all [of "wtd_date a" "wtd_endpoint a"]
    by (simp add: err)
  from keys kset rows show ?thesis
    by blast
qed

lemma example_web_traffic_daily:
  "map (\<lambda>a. (wtd_date a, wtd_endpoint a, wtd_total_requests a, wtd_error_count a))
     (web_traffic_daily example_web_logs)
   = [(''2024-01-01'', ''/home'', 2, 1), (''2024-01-02'', ''/about'', 1, 1)]"
  by code_simp

lemma example_web_statuses:
  "map (\<lambda>r. (wl_date r, wl_endpoint r, wl_status_code r)) example_web_logs
   = [(Some ''2024-01-01'', Some ''/home'', Some 200),
      (Some ''2024-01-01'', Some ''/home'', Some 404),
      (Some ''2024-01-02'', Some ''/about'', Some 500)]"
  by code_simp

theorem web_traffic_daily_counts_witness:
  "Write ''data/processed/web_logs_processed.csv'' (WebLogs example_web_logs)
     \<in> set (snd (process_web_logs example_env))
   \<and> map (\<lambda>r. (wl_date r, wl_endpoint r, wl_status_code r)) example_web_logs
       = [(Some ''2024-01-01'', Some ''/home'', Some 200),
          (Some ''2024-01-01'', Some ''/home'', Some 404),
          (Some ''2024-01-02'', Some ''/about'', Some 500)]
   \<and> map (\<lambda>a. (wtd_date a, wtd_endpoint a, wtd_total_requests a, wtd_error_count a))
       (web_traffic_daily example_web_logs)
       = [(''2024-01-01'', ''/home'', 2, 1), (''2024-01-02'', ''/about'', 1, 1)]
   \<and> distinct (map (\<lambda>a. (wtd_date a, wtd_endpoint a)) (web_traffic_daily example_web_logs))"
proof -
  have w: "Write ''data/processed/web_logs_processed.csv'' (WebLogs example_web_logs)
             \<in> set (snd (process_web_logs example_env))"
    by (simp add: example_web_run)
  show ?thesis
    using web_traffic_daily_counts [OF w] w example_web_traffic_daily example_web_statuses
    by simp
qed

text \<open>
  Claim C2 as stated fails. The processor writes the table of a raw file whose first row
  has an empty \<open>status_code\<close> cell; the two rows of that table are on 2024-01-01 for
  \<open>/home\<close>, and the aggregate row for that pair has \<open>total_requests = 1\<close>, not 2.
\<close>

theorem web_traffic_daily_miscount:
  "Write ''data/processed/web_logs_processed.csv'' (WebLogs missing_status_web_logs)
     \<in> set (snd (process_web_logs missing_status_env))
   \<and> length missing_status_web_logs = 2
   \<and> wl_date (missing_status_web_logs ! 0) = Some ''2024-01-01''
   \<and> wl_endpoint (missing_status_web_logs ! 0) = Some ''/home''
   \<and> wl_status_code (missing_status_web_logs ! 0) = None
   \<and> wl_date (missing_status_web_logs ! 1) = Some ''2024-01-01''
   \<and> wl_endpoint (missing_status_web_logs ! 1) = Some ''/home''
   \<and> wl_status_code (missing_status_web_logs ! 1) = Some 200
   \<and> length (web_traffic_daily missing_status_web_logs) = 1
   \<and> wtd_date (web_traffic_daily missing_status_web_logs ! 0) = ''2024-01-01''
   \<and> wtd_endpoint (web_traffic_daily missing_status_web_logs ! 0) = ''/home''
   \<and> wtd_total_requests (web_traffic_daily missing_status_web_logs ! 0) = 1
   \<and> wtd_error_count (web_traffic_daily missing_status_web_logs ! 0) = 0"
proof -
  have "process_web_logs missing_status_env =
     (Inr True,
      [Makedirs ''data/processed'',
       Print ''Processing web logs from data/raw/logs/web_access_logs.csv...'',
       Write ''data/processed/web_logs_processed.csv'' (WebLogs missing_status_web_logs),
       Print ''Processed web logs saved to data/processed/web_logs_processed.csv''])"
    by (simp add: process_web_logs_def missing_status_env_def example_env_def
        web_logs_frame_def missing_status_raw_def example_to_datetime_def
        missing_status_web_logs_def to_datetime_col_def missing_is_nat_def call_defs)
  moreover have "length missing_status_web_logs = 2
      \<and> wl_date (missing_status_web_logs ! 0) = Some ''2024-01-01''
      \<and> wl_endpoint (missing_status_web_logs ! 0) = Some ''/home''
      \<and> wl_status_code (missing_status_web_logs ! 0) = None
      \<and> wl_date (missing_status_web_logs ! 1) = Some ''2024-01-01''
      \<and> wl_endpoint (missing_status_web_logs ! 1) = Some ''/home''
      \<and> wl_status_code (missing_status_web_logs ! 1) = Some 200"
    by code_simp
  moreover have "length (web_traffic_daily missing_status_web_logs) = 1
      \<and> wtd_date (web_traffic_daily missing_status_web_logs ! 0) = ''2024-01-01''
      \<and> wtd_endpoint (web_traffic_daily missing_status_web_logs ! 0) = ''/home''
      \<and> wtd_total_requests (web_traffic_daily missing_status_web_logs ! 0) = 1
      \<and> wtd_error_count (web_traffic_daily missing_status_web_logs ! 0) = 0"
    by code_simp
  ultimately show ?thesis
    by simp
qed

subsection \<open>The correlation table\<close>

lemma web_daily_dates:
  "map wd_date (web_daily web_logs) = sort (remdups (List.map_filter wl_date web_logs))"
  by (simp add: web_daily_def groupby_def comp_def)

lemma social_daily_dates:
  "map sd_date (social_daily social_data) = sort (remdups (List.map_filter sp_date social_data))"
  by (simp add: social_daily_def groupby_def comp_def)

lemma filter_key_distinct:
  "distinct (map f xs) \<Longrightarrow>
   length (filter (\<lambda>x. f x = k) xs) = (if k \<in> f ` set xs then 1 else 0)"
  by (induction xs) auto

lemma inner_join_dates:
  assumes "distinct (map sd_date right)"
  shows "map cd_date (inner_join left right)
       = filter (\<lambda>d. d \<in> sd_date ` set right) (map wd_date left)"
proof (induction left)
  case Nil
  then show ?case by (simp add: inner_join_def)
next
  case (Cons w left)
  have "map cd_date (map (correlation_of w) (filter (\<lambda>s. sd_date s = wd_date w) right))
      = replicate (length (filter (\<lambda>s. sd_date s = wd_date w) right)) (wd_date w)"
    by (simp add: map_replicate_const comp_def correlation_of_def)
  also have "\<dots> = (if wd_date w \<in> sd_date ` set right then [wd_date w] else [])"
    by (simp add: filter_key_distinct [OF assms])
  finally show ?case
    using Cons.IH by (simp add: inner_join_def)
qed

lemma inner_join_one_row_per_common_date:
  assumes "distinct (map wd_date left)" and "distinct (map sd_date right)"
  shows "distinct (map cd_date (inner_join left right))"
    and "set (map cd_date (inner_join left right)) = wd_date ` set left \<inter> sd_date ` set right"
    and "length (inner_join left right) = card (wd_date ` set left \<inter> sd_date ` set right)"
proof -
  show d: "distinct (map cd_date (inner_join left right))"
    using assms by (simp add: inner_join_dates)
  show s: "set (map cd_date (inner_join left right)) = wd_date ` set left \<inter> sd_date ` set right"
    using assms by (auto simp: inner_join_dates)
  from distinct_card [OF d] s
  show "length (inner_join left right) = card (wd_date ` set left \<inter> sd_date ` set right)"
    by simp
qed

lemma correlation_data_returns:
  "correlation_data None left right = (Inr (inner_join left right), [])"
  by (simp add: correlation_data_def try_except_def reading_def)

lemma correlation_data_fallback:
  "correlation_data (Some e) left right =
     (Inr (dummy_correlation left), [Print (''Error merging data: '' @ str_exn e)])"
  by (simp add: correlation_data_def try_except_def reading_def bind_def say_def ret_def)

text \<open>
  Claim C3. For every pair of processed tables, when \<open>pd.merge\<close> returns, the
  correlation table is the inner join on \<open>date\<close> of the per-date web summary and the
  per-date social summary: it has exactly one row per date present in both tables (a
  row whose date is missing has no date), so as many rows as there are such dates. When the merge raises, the placeholder table is
  used instead. The example has web dates 2024-01-01 and 2024-01-02 and the social date
  2024-01-01 only: the join has exactly one row.
\<close>

theorem correlation_inner_join_on_date:
  "(correlation_data None (web_daily web_logs) (social_daily social_data)
      :: (correlation_row list, cell list list) call)
     = (Inr (inner_join (web_daily web_logs) (social_daily social_data)), [])
   \<and> distinct (map cd_date (inner_join (web_daily web_logs) (social_daily social_data)))
   \<and> set (map cd_date (inner_join (web_daily web_logs) (social_daily social_data)))
       = {d. Some d \<in> set (map wl_date web_logs)} \<inter> {d. Some d \<in> set (map sp_date social_data)}
   \<and> length (inner_join (web_daily web_logs) (social_daily social_data))
       = card ({d. Some d \<in> set (map wl_date web_logs)}
               \<inter> {d. Some d \<in> set (map sp_date social_data)})
   \<and> (\<forall>e. fst (correlation_data (Some e) (web_daily web_logs) (social_daily social_data)
               :: (correlation_row list, cell list list) call)
            = Inr (dummy_correlation (web_daily web_logs)))"
proof -
  have l: "distinct (map wd_date (web_daily web_logs))"
    and r: "distinct (map sd_date (social_daily social_data))"
    by (simp_all add: web_daily_dates social_daily_dates)
  have wl: "wd_date ` set (web_daily web_logs) = {d. Some d \<in> set (map wl_date web_logs)}"
    using arg_cong [OF web_daily_dates [of web_logs], of set]
    by (force simp: set_map_filter image_iff)
  have sp: "sd_date ` set (social_daily social_data) = {d. Some d \<in> set (map sp_date social_data)}"
    using arg_cong [OF social_daily_dates [of social_data], of set]
    by (force simp: set_map_filter image_iff)
  show ?thesis
    using inner_join_one_row_per_common_date [OF l r]
    by (simp only: correlation_data_returns correlation_data_fallback wl sp fst_conv) simp
qed

lemma example_daily_dates:
  "map wd_date (web_daily example_web_logs) = [''2024-01-01'', ''2024-01-02'']"
  "map sd_date (social_daily example_social_data) = [''2024-01-01'']"
  by code_simp+

lemma example_inner_join:
  "map (\<lambda>c. (cd_date c, cd_total_requests c, cd_error_count c, cd_post_count c))
     (inner_join (web_daily example_web_logs) (social_daily example_social_data))
   = [(''2024-01-01'', 2, 1, 1)]"
  by code_simp

theorem correlation_inner_join_on_date_witness:
  "map wd_date (web_daily example_web_logs) = [''2024-01-01'', ''2024-01-02'']
   \<and> map sd_date (social_daily example_social_data) = [''2024-01-01'']
   \<and> length (inner_join (web_daily example_web_logs) (social_daily example_social_data)) = 1
   \<and> set (map cd_date (inner_join (web_daily example_web_logs)
               (social_daily example_social_data)))
       = {d. Some d \<in> set (map wl_date example_web_logs)}
         \<inter> {d. Some d \<in> set (map sp_date example_social_data)}
   \<and> map (\<lambda>c. (cd_date c, cd_total_requests c, cd_error_count c, cd_post_count c))
       (inner_join (web_daily example_web_logs) (social_daily example_social_data))
       = [(''2024-01-01'', 2, 1, 1)]"
proof -
  have "length (map (\<lambda>c. (cd_date c, cd_total_requests c, cd_error_count c, cd_post_count c))
     (inner_join (web_daily example_web_logs) (social_daily example_social_data))) = 1"
    by (simp only: example_inner_join) simp
  then have n: "length (inner_join (web_daily example_web_logs)
                  (social_daily example_social_data)) = 1"
    by simp
  show ?thesis
    using correlation_inner_join_on_date [of example_web_logs example_social_data]
      example_daily_dates example_inner_join n
    by simp
qed


subsection \<open>The placeholder after a failed merge\<close>

lemma dummy_correlation_rows:
  "dummy_correlation web_daily_df =
     map (\<lambda>w. \<lparr> cd_date = wd_date w,
                 cd_total_requests = wd_total_requests w,
                 cd_error_count = wd_error_count w,
                 cd_avg_response_time = wd_avg_response_time w,
                 cd_post_count = 100,
                 cd_total_likes = 500,
                 cd_total_shares = 200,
                 cd_total_comments = 300,
                 cd_avg_engagement = Some 50,
                 cd_avg_sentiment = Some 0.5 \<rparr>) web_daily_df"
  by (simp add: list_eq_iff_nth_eq dummy_correlation_def)

lemma directly_run:
  assumes "read_web_logs_processed env = Inr web_logs"
    and "read_social_data_processed env = Inr social_data"
    and "read_sensor_data_processed env = Inr sensor_data"
    and "\<forall>path. dp_makedirs env path = None"
    and "\<forall>path. dp_to_csv env path = None"
    and "correlation_data (merge_raises env) (web_daily web_logs) (social_daily social_data)
           = (Inr correlation, tr)"
  shows "process_data_directly env =
     (Inr (),
      [Print ''Starting direct data processing...'',
       Makedirs ''data/processed'', Makedirs ''data/exports'',
       Print ''Data loaded successfully!'',
       Print (''Web logs columns: '' @ repr_list web_logs_columns),
       Print (''Social data columns: '' @ repr_list social_data_columns),
       Print (''Sensor data columns: '' @ repr_list sensor_data_columns),
       Print ''Performing aggregations (equivalent to Hive queries)...'']
      @ tr @
      [Print ''Saving processed data to exports directory...'',
       Makedirs ''data/exports/web_traffic_by_endpoint'',
       Makedirs ''data/exports/web_traffic_hourly'',
       Makedirs ''data/exports/social_engagement'',
       Makedirs ''data/exports/sensor_readings'',
       Makedirs ''data/exports/correlation_data'']
      @ map (\<lambda>(path, df). Write path (to_csv_headerless df))
          (exports web_logs social_data sensor_data correlation)
      @ [Print ''Direct data processing completed successfully!'',
         Print ''Results saved to data/exports/ directory.'',
         Print ''You can now run prepare_for_visualization.py to prepare data for Tableau/Power BI.''])"
  using assms
  by (simp add: process_data_directly_def load_processed_def exports_def call_defs)

text \<open>
  Claim C4. If \<open>pd.merge\<close> raises, in a world where the tables load and the directories
  and files can be written, the script does not abort: it prints the error, runs to its
  end and saves as correlation table the placeholder, which has one row per row of the
  per-date web summary, with the web columns of that row and the constants 100, 500,
  200, 300, 50 and 0.5 in the social columns.
\<close>

theorem merge_failure_placeholder:
  assumes "merge_raises env = Some e"
    and "read_web_logs_processed env = Inr web_logs"
    and "read_social_data_processed env = Inr social_data"
    and "read_sensor_data_processed env = Inr sensor_data"
    and "\<forall>path. dp_makedirs env path = None"
    and "\<forall>path. dp_to_csv env path = None"
  shows "fst (process_data_directly env) = Inr ()
       \<and> Print (''Error merging data: '' @ str_exn e) \<in> set (snd (process_data_directly env))
       \<and> Write correlation_data_file
           (to_csv_headerless (correlation_frame (dummy_correlation (web_daily web_logs))))
           \<in> set (snd (process_data_directly env))
       \<and> length (dummy_correlation (web_daily web_logs)) = length (web_daily web_logs)
       \<and> (\<forall>i < length (web_daily web_logs).
            cd_date (dummy_correlation (web_daily web_logs) ! i) = wd_date (web_daily web_logs ! i)
          \<and> cd_total_requests (dummy_correlation (web_daily web_logs) ! i)
              = wd_total_requests (web_daily web_logs ! i)
          \<and> cd_error_count (dummy_correlation (web_daily web_logs) ! i)
              = wd_error_count (web_daily web_logs ! i)
          \<and> cd_avg_response_time (dummy_correlation (web_daily web_logs) ! i)
              = wd_avg_response_time (web_daily web_logs ! i)
          \<and> cd_post_count (dummy_correlation (web_daily web_logs) ! i) = 100
          \<and> cd_total_likes (dummy_correlation (web_daily web_logs) ! i) = 500
          \<and> cd_total_shares (dummy_correlation (web_daily web_logs) ! i) = 200
          \<and> cd_total_comments (dummy_correlation (web_daily web_logs) ! i) = 300
          \<and> cd_avg_engagement (dummy_correlation (web_daily web_logs) ! i) = Some 50
          \<and> cd_avg_sentiment (dummy_correlation (web_daily web_logs) ! i) = Some 0.5)"
proof -
  have c: "correlation_data (merge_raises env) (web_daily web_logs) (social_daily social_data)
      = (Inr (dummy_correlation (web_daily web_logs)),
         [Print (''Error merging data: '' @ str_exn e) :: cell list list event])"
    by (simp add: assms(1) correlation_data_fallback)
  note run = directly_run [OF assms(2-6) c]
  have "fst (process_data_directly env) = Inr ()"
    by (simp add: run)
  moreover have "Print (''Error merging data: '' @ str_exn e)
      \<in> set (snd (process_data_directly env))"
    by (simp add: run)
  moreover have "Write correlation_data_file
           (to_csv_headerless (correlation_frame (dummy_correlation (web_daily web_logs))))
           \<in> set (snd (process_data_directly env))"
    by (simp add: run exports_def)
  ultimately show ?thesis
    by (simp add: dummy_correlation_rows)
qed

lemma example_web_daily:
  "map (\<lambda>w. (wd_date w, wd_total_requests w, wd_error_count w)) (web_daily example_web_logs)
   = [(''2024-01-01'', 2, 1), (''2024-01-02'', 1, 1)]"
  by code_simp

theorem merge_failure_placeholder_witness:
  "merge_raises failing_merge_env
     = Some (Exception ''You are trying to merge on object and int64 columns'')
   \<and> fst (process_data_directly failing_merge_env) = Inr ()
   \<and> Print ''Error merging data: You are trying to merge on object and int64 columns''
       \<in> set (snd (process_data_directly failing_merge_env))
   \<and> length (web_daily example_web_logs) = 2
   \<and> map (\<lambda>c. (cd_date c, cd_total_requests c, cd_error_count c, cd_post_count c,
                 cd_total_likes c, cd_total_shares c, cd_total_comments c,
                 cd_avg_engagement c, cd_avg_sentiment c))
       (dummy_correlation (web_daily example_web_logs))
       = [(''2024-01-01'', 2, 1, 100, 500, 200, 300, Some 50, Some 0.5),
          (''2024-01-02'', 1, 1, 100, 500, 200, 300, Some 50, Some 0.5)]"
proof -
  have m: "merge_raises failing_merge_env
     = Some (Exception ''You are trying to merge on object and int64 columns'')"
    and r: "read_web_logs_processed failing_merge_env = Inr example_web_logs"
      "read_social_data_processed failing_merge_env = Inr example_social_data"
      "read_sensor_data_processed failing_merge_env = Inr example_sensor_data"
    and o: "\<forall>path. dp_makedirs failing_merge_env path = None"
      "\<forall>path. dp_to_csv failing_merge_env path = None"
    by (simp_all add: failing_merge_env_def example_dp_env_def)
  have "length (map (\<lambda>w. (wd_date w, wd_total_requests w, wd_error_count w))
          (web_daily example_web_logs)) = 2"
    by (simp only: example_web_daily) simp
  then have n: "length (web_daily example_web_logs) = 2"
    by simp
  have d: "map (\<lambda>c. (cd_date c, cd_total_requests c, cd_error_count c, cd_post_count c,
                 cd_total_likes c, cd_total_shares c, cd_total_comments c,
                 cd_avg_engagement c, cd_avg_sentiment c))
       (dummy_correlation (web_daily example_web_logs))
     = map (\<lambda>(d, t, e). (d, t, e, 100, 500, 200, 300, Some 50, Some 0.5))
         (map (\<lambda>w. (wd_date w, wd_total_requests w, wd_error_count w))
            (web_daily example_web_logs))"
    by (simp add: dummy_correlation_rows comp_def)
  show ?thesis
    using merge_failure_placeholder [OF m r o] m n
    by (simp add: d example_web_daily)
qed

subsection \<open>Reading the exports back\<close>

















subsection \<open>Datasets that do not load\<close>
















end
